theory Spec2Isabelle
  imports Complex_Main
begin

section \<open>Python values and string operations used by the scraper\<close>

text \<open>
  Texts are lists of characters; a character stands for one code point below 256, so the
  registered-trademark glyph of the pricing pattern is the single character 0xAE.
  Every exception the module can raise is a constructor of \<open>exn\<close>, and a computation that may
  raise returns \<open>exn + 'a\<close>, the exception on the left.
\<close>

datatype exn =
    ValueError
  | NullResultException
  | IndexError
  | AttributeError
  | KeyError
  | InvalidOperation
  | OverflowError
  | DecimalOverflow
  | FetchException
  | ClientError string

definition bind :: "exn + 'a \<Rightarrow> ('a \<Rightarrow> exn + 'b) \<Rightarrow> exn + 'b" where
  "bind m f = (case m of Inl e \<Rightarrow> Inl e | Inr x \<Rightarrow> f x)"

text \<open>What a computation raised, if it raised.\<close>

definition raised :: "exn + 'a \<Rightarrow> exn option" where
  "raised m = (case m of Inl e \<Rightarrow> Some e | Inr x \<Rightarrow> None)"

definition succeeds :: "exn + 'a \<Rightarrow> bool" where
  "succeeds m = (raised m = None)"

text \<open>\<^verbatim>\<open>s.startswith(p)\<close> and \<^verbatim>\<open>sub in s\<close> on strings.\<close>

fun startswith :: "string \<Rightarrow> string \<Rightarrow> bool" where
  "startswith s [] = True"
| "startswith [] (p # ps) = False"
| "startswith (c # cs) (p # ps) = (c = p \<and> startswith cs ps)"

fun py_in :: "string \<Rightarrow> string \<Rightarrow> bool" where
  "py_in sub [] = (sub = [])"
| "py_in sub (c # cs) = (startswith (c # cs) sub \<or> py_in sub cs)"

text \<open>\<^verbatim>\<open>str(n)\<close> and \<^verbatim>\<open>"{}".format(n)\<close> for an integer.\<close>

definition digit_char :: "int \<Rightarrow> char" where
  "digit_char d = char_of (48 + d)"

function str_digits :: "int \<Rightarrow> string" where
  "str_digits n = (if n < 10 then [digit_char n] else str_digits (n div 10) @ [digit_char (n mod 10)])"
  by pat_completeness auto
termination
  by (relation "measure nat") auto

definition str_int :: "int \<Rightarrow> string" where
  "str_int i = (if i < 0 then CHR ''-'' # str_digits (- i) else str_digits i)"

text \<open>
  Whitespace as \<^verbatim>\<open>str.strip()\<close>, \<^verbatim>\<open>str.isspace()\<close> and the pattern class \<^verbatim>\<open>\S\<close> see it,
  for code points below 256.
\<close>

definition py_isspace :: "char \<Rightarrow> bool" where
  "py_isspace c = (let n = (of_char c :: int) in
     (9 \<le> n \<and> n \<le> 13) \<or> (28 \<le> n \<and> n \<le> 32) \<or> n = 133 \<or> n = 160)"

definition lstrip_with :: "(char \<Rightarrow> bool) \<Rightarrow> string \<Rightarrow> string" where
  "lstrip_with p s = dropWhile p s"

definition rstrip_with :: "(char \<Rightarrow> bool) \<Rightarrow> string \<Rightarrow> string" where
  "rstrip_with p s = rev (dropWhile p (rev s))"

text \<open>\<^verbatim>\<open>s.strip()\<close> and \<^verbatim>\<open>s.strip(chars)\<close>.\<close>

definition py_strip :: "string \<Rightarrow> string" where
  "py_strip s = rstrip_with py_isspace (lstrip_with py_isspace s)"

definition py_strip_chars :: "string \<Rightarrow> string \<Rightarrow> string" where
  "py_strip_chars chars s =
     rstrip_with (\<lambda>c. c \<in> set chars) (lstrip_with (\<lambda>c. c \<in> set chars) s)"

text \<open>\<^verbatim>\<open>s.split(sep)\<close> for a separator of one character: never an empty list.\<close>

fun py_split :: "char \<Rightarrow> string \<Rightarrow> string list" where
  "py_split sep [] = [[]]"
| "py_split sep (c # cs) =
     (if c = sep then [] # py_split sep cs
      else case py_split sep cs of
             [] \<Rightarrow> [[c]]
           | w # ws \<Rightarrow> (c # w) # ws)"

text \<open>The pieces of a text between runs of whitespace (what \<^verbatim>\<open>\S+\<close> finds).\<close>

definition py_words :: "string \<Rightarrow> string list" where
  "py_words s =
     filter (\<lambda>w. w \<noteq> [])
       (foldr (\<lambda>c acc. if py_isspace c then [] # acc
                        else case acc of [] \<Rightarrow> [[c]] | w # ws \<Rightarrow> (c # w) # ws) s [[]])"

text \<open>\<^verbatim>\<open>sep.join(xs)\<close>.\<close>

fun py_join :: "string \<Rightarrow> string list \<Rightarrow> string" where
  "py_join sep [] = []"
| "py_join sep [x] = x"
| "py_join sep (x # y # ys) = x @ sep @ py_join sep (y # ys)"

text \<open>\<^verbatim>\<open>s.replace(old, new)\<close> for a non-empty \<^verbatim>\<open>old\<close>; \<open>k\<close> counts the characters of a
  match that are still to be skipped.\<close>

fun replace_go :: "string \<Rightarrow> string \<Rightarrow> nat \<Rightarrow> string \<Rightarrow> string" where
  "replace_go old new k [] = []"
| "replace_go old new (Suc k) (c # cs) = replace_go old new k cs"
| "replace_go old new 0 (c # cs) =
     (if startswith (c # cs) old then new @ replace_go old new (length old - 1) cs
      else c # replace_go old new 0 cs)"

definition py_replace :: "string \<Rightarrow> string \<Rightarrow> string \<Rightarrow> string" where
  "py_replace old new s = replace_go old new 0 s"

text \<open>\<^verbatim>\<open>s.lower()\<close>: the letters A to Z and the upper-case letters of Latin-1.\<close>

definition lower_char :: "char \<Rightarrow> char" where
  "lower_char c = (let n = (of_char c :: int) in
     if (65 \<le> n \<and> n \<le> 90) \<or> (192 \<le> n \<and> n \<le> 222 \<and> n \<noteq> 215) then char_of (n + 32) else c)"

definition py_lower :: "string \<Rightarrow> string" where
  "py_lower s = map lower_char s"

text \<open>Negative indexing from the end of a list: \<^verbatim>\<open>xs[-1]\<close> and \<^verbatim>\<open>xs[-2]\<close>.\<close>

definition index_last :: "'a list \<Rightarrow> exn + 'a" where
  "index_last xs = (case rev xs of [] \<Rightarrow> Inl IndexError | x # _ \<Rightarrow> Inr x)"

definition index_last2 :: "'a list \<Rightarrow> exn + 'a" where
  "index_last2 xs = (case rev xs of _ # y # _ \<Rightarrow> Inr y | _ \<Rightarrow> Inl IndexError)"

text \<open>\<^verbatim>\<open>xs[i]\<close> for a non-negative index.\<close>

definition index_at :: "'a list \<Rightarrow> nat \<Rightarrow> exn + 'a" where
  "index_at xs i = (if i < length xs then Inr (xs ! i) else Inl IndexError)"

section \<open>The document tree and the queries made on it\<close>

text \<open>
  What the HTML parser returns: a tree of tags (name, attributes, contents), text nodes
  and comment nodes. The document itself is a tag.
\<close>

datatype node =
    Tag string "(string \<times> string) list" "node list"
  | NavigableString string
  | Comment string

fun descendants :: "node \<Rightarrow> node list" where
  "descendants (Tag n a cs) = concat (map (\<lambda>c. c # descendants c) cs)"
| "descendants (NavigableString s) = []"
| "descendants (Comment s) = []"

fun is_tag :: "node \<Rightarrow> bool" where
  "is_tag (Tag n a cs) = True"
| "is_tag _ = False"

fun tag_name :: "node \<Rightarrow> string option" where
  "tag_name (Tag n a cs) = Some n"
| "tag_name _ = None"

fun contents :: "node \<Rightarrow> node list" where
  "contents (Tag n a cs) = cs"
| "contents _ = []"

fun get_attr :: "node \<Rightarrow> string \<Rightarrow> string option" where
  "get_attr (Tag n a cs) k = map_of a k"
| "get_attr _ k = None"

text \<open>\<^verbatim>\<open>tag.text\<close>, \<^verbatim>\<open>tag.get_text()\<close>: the text nodes below the tag, comments left out.\<close>

fun own_text :: "node \<Rightarrow> string" where
  "own_text (NavigableString s) = s"
| "own_text _ = []"

definition get_text :: "node \<Rightarrow> string" where
  "get_text n = concat (map own_text (descendants n))"

text \<open>\<^verbatim>\<open>tag.find_all(text=True)\<close>: every string below the tag, comments included.\<close>

fun string_of :: "node \<Rightarrow> string list" where
  "string_of (NavigableString s) = [s]"
| "string_of (Comment s) = [s]"
| "string_of (Tag n a cs) = []"

definition find_all_text :: "node \<Rightarrow> string list" where
  "find_all_text n = concat (map string_of (descendants n))"

text \<open>\<^verbatim>\<open>tag.find(text=lambda text: isinstance(text, Comment))\<close>.\<close>

fun comment_of :: "node \<Rightarrow> string list" where
  "comment_of (Comment s) = [s]"
| "comment_of _ = []"

definition find_comment :: "node \<Rightarrow> string option" where
  "find_comment n = (case concat (map comment_of (descendants n)) of [] \<Rightarrow> None | c # _ \<Rightarrow> Some c)"

text \<open>
  Matching an attribute against a string: a missing attribute matches only the empty
  string. The \<^verbatim>\<open>class\<close> attribute is a list of words; it matches when one word or the words
  joined by a blank equal the string.
\<close>

definition attr_is :: "node \<Rightarrow> string \<Rightarrow> string \<Rightarrow> bool" where
  "attr_is n k v = (case get_attr n k of None \<Rightarrow> v = [] | Some w \<Rightarrow> w = v)"

definition has_class :: "node \<Rightarrow> string \<Rightarrow> bool" where
  "has_class n v =
     (case get_attr n ''class'' of
        None \<Rightarrow> v = []
      | Some w \<Rightarrow> v \<in> set (py_words w) \<or> py_join '' '' (py_words w) = v)"

text \<open>The class matches a compiled pattern that is plain text: the text occurs in one of the
  words or in the joined words.\<close>

definition has_class_containing :: "node \<Rightarrow> string \<Rightarrow> bool" where
  "has_class_containing n v =
     (case get_attr n ''class'' of
        None \<Rightarrow> False
      | Some w \<Rightarrow> (\<exists>x \<in> set (py_words w). py_in v x) \<or> py_in v (py_join '' '' (py_words w)))"

definition find_all :: "node \<Rightarrow> (node \<Rightarrow> bool) \<Rightarrow> node list" where
  "find_all n p = filter (\<lambda>d. is_tag d \<and> p d) (descendants n)"

definition find_tag :: "node \<Rightarrow> (node \<Rightarrow> bool) \<Rightarrow> node option" where
  "find_tag n p = (case find_all n p of [] \<Rightarrow> None | d # _ \<Rightarrow> Some d)"

definition named :: "string \<Rightarrow> node \<Rightarrow> bool" where
  "named nm d = (tag_name d = Some nm)"

text \<open>\<^verbatim>\<open>soup.select("ol.photos img")\<close>: the \<^verbatim>\<open>img\<close> tags that have an \<^verbatim>\<open>ol\<close> of class
  \<^verbatim>\<open>photos\<close> above them, in document order. The flag says that such an \<^verbatim>\<open>ol\<close> has been entered.\<close>

definition is_ol_photos :: "node \<Rightarrow> bool" where
  "is_ol_photos d =
     (named ''ol'' d \<and> (case get_attr d ''class'' of None \<Rightarrow> False
                                                 | Some w \<Rightarrow> ''photos'' \<in> set (py_words w)))"

fun select_img :: "bool \<Rightarrow> node \<Rightarrow> node list" where
  "select_img inside (Tag n a cs) =
     concat (map (\<lambda>c. (if inside \<and> named ''img'' c then [c] else [])
                      @ select_img (inside \<or> is_ol_photos c) c) cs)"
| "select_img inside (NavigableString s) = []"
| "select_img inside (Comment s) = []"

definition select_ol_photos_img :: "node \<Rightarrow> node list" where
  "select_ol_photos_img soup = select_img False soup"

section \<open>Regular expressions\<close>

text \<open>
  The patterns of the module use literals, character classes, sequence, alternation, greedy
  repetition and capturing groups. \<open>rmatch r s caps\<close> lists, in the order a backtracking
  matcher tries them, the ways \<open>r\<close> matches a prefix of \<open>s\<close>: the text left over and the
  groups captured. No pattern of the module has a repeated part that matches the empty text;
  an iteration that consumes nothing ends the repetition.
\<close>

datatype rx =
    Lits string
  | Cls "char \<Rightarrow> bool"
  | Seq rx rx
  | Alt rx rx
  | Star rx
  | Grp nat rx

type_synonym caps = "nat \<Rightarrow> string option"

primrec star_iter ::
  "nat \<Rightarrow> (string \<Rightarrow> caps \<Rightarrow> (string \<times> caps) list) \<Rightarrow> string \<Rightarrow> caps \<Rightarrow> (string \<times> caps) list" where
  "star_iter 0 f s cs = [(s, cs)]"
| "star_iter (Suc n) f s cs =
     concat (map (\<lambda>(s', cs'). if length s' < length s then star_iter n f s' cs' else []) (f s cs))
     @ [(s, cs)]"

primrec rmatch :: "rx \<Rightarrow> string \<Rightarrow> caps \<Rightarrow> (string \<times> caps) list" where
  "rmatch (Lits l) = (\<lambda>s cs. if startswith s l then [(drop (length l) s, cs)] else [])"
| "rmatch (Cls p) = (\<lambda>s cs. case s of [] \<Rightarrow> [] | c # t \<Rightarrow> if p c then [(t, cs)] else [])"
| "rmatch (Seq a b) = (\<lambda>s cs. concat (map (\<lambda>(s', cs'). rmatch b s' cs') (rmatch a s cs)))"
| "rmatch (Alt a b) = (\<lambda>s cs. rmatch a s cs @ rmatch b s cs)"
| "rmatch (Star a) = (\<lambda>s cs. star_iter (length s) (rmatch a) s cs)"
| "rmatch (Grp i a) =
     (\<lambda>s cs. map (\<lambda>(s', cs'). (s', cs'(i \<mapsto> take (length s - length s') s))) (rmatch a s cs))"

text \<open>The numbers of the groups of a pattern.\<close>

primrec grp_ids :: "rx \<Rightarrow> nat set" where
  "grp_ids (Lits l) = {}"
| "grp_ids (Cls p) = {}"
| "grp_ids (Seq a b) = grp_ids a \<union> grp_ids b"
| "grp_ids (Alt a b) = grp_ids a \<union> grp_ids b"
| "grp_ids (Star a) = grp_ids a"
| "grp_ids (Grp i a) = insert i (grp_ids a)"

definition Rep1 :: "rx \<Rightarrow> rx" where
  "Rep1 a = Seq a (Star a)"

definition Opt :: "rx \<Rightarrow> rx" where
  "Opt a = Alt a (Lits [])"

fun Seqs :: "rx list \<Rightarrow> rx" where
  "Seqs [] = Lits []"
| "Seqs [a] = a"
| "Seqs (a # b # bs) = Seq a (Seqs (b # bs))"

fun Alts :: "string list \<Rightarrow> rx" where
  "Alts [] = Cls (\<lambda>c. False)"
| "Alts [a] = Lits a"
| "Alts (a # b # bs) = Alt (Lits a) (Alts (b # bs))"

text \<open>The classes \<^verbatim>\<open>\d\<close>, \<^verbatim>\<open>\w\<close>, \<^verbatim>\<open>[A-Z]\<close> and \<^verbatim>\<open>.\<close> on code points below 256.\<close>

definition is_digit :: "char \<Rightarrow> bool" where
  "is_digit c = (let n = (of_char c :: int) in 48 \<le> n \<and> n \<le> 57)"

definition is_upper_AZ :: "char \<Rightarrow> bool" where
  "is_upper_AZ c = (let n = (of_char c :: int) in 65 \<le> n \<and> n \<le> 90)"

definition is_word :: "char \<Rightarrow> bool" where
  "is_word c = (let n = (of_char c :: int) in
     (48 \<le> n \<and> n \<le> 57) \<or> (65 \<le> n \<and> n \<le> 90) \<or> (97 \<le> n \<and> n \<le> 122) \<or> n = 95
     \<or> n = 170 \<or> n = 178 \<or> n = 179 \<or> n = 181 \<or> n = 185 \<or> n = 186
     \<or> (188 \<le> n \<and> n \<le> 190) \<or> (192 \<le> n \<and> n \<le> 214) \<or> (216 \<le> n \<and> n \<le> 246)
     \<or> 248 \<le> n)"

definition any_char :: "char \<Rightarrow> bool" where
  "any_char c = (c \<noteq> CHR 0x0A)"

text \<open>
  \<^verbatim>\<open>re.search(p, s)\<close>: the first way to match at the leftmost position that has one;
  the result is the matched text and the groups. \<^verbatim>\<open>re.findall(p, s)[0]\<close> is the groups of the
  same match, and \<^verbatim>\<open>re.findall(p, s)\<close> is empty exactly when there is none.
\<close>

fun re_search :: "rx \<Rightarrow> string \<Rightarrow> (string \<times> caps) option" where
  "re_search r [] =
     (case rmatch r [] Map.empty of [] \<Rightarrow> None | (s', cs) # _ \<Rightarrow> Some ([], cs))"
| "re_search r (c # t) =
     (case rmatch r (c # t) Map.empty of
        [] \<Rightarrow> re_search r t
      | (s', cs) # _ \<Rightarrow> Some (take (length (c # t) - length s') (c # t), cs))"

definition match_group :: "caps \<Rightarrow> nat \<Rightarrow> string" where
  "match_group cs i = (case cs i of None \<Rightarrow> [] | Some g \<Rightarrow> g)"

text \<open>\<^verbatim>\<open>re.findall(p, s)[0]\<close> for a pattern with one group and with two groups.\<close>

definition findall_first :: "rx \<Rightarrow> string \<Rightarrow> exn + string" where
  "findall_first r s = (case re_search r s of None \<Rightarrow> Inl IndexError | Some (m, cs) \<Rightarrow> Inr (match_group cs 1))"

definition findall_first2 :: "rx \<Rightarrow> string \<Rightarrow> exn + (string \<times> string)" where
  "findall_first2 r s =
     (case re_search r s of None \<Rightarrow> Inl IndexError | Some (m, cs) \<Rightarrow> Inr (match_group cs 1, match_group cs 2))"

text \<open>\<^verbatim>\<open>re.sub(p, repl, s)\<close> for a replacement without group references and a pattern that
  matches no empty text; \<open>k\<close> counts the characters of a match still to be skipped.\<close>

fun sub_go :: "rx \<Rightarrow> string \<Rightarrow> nat \<Rightarrow> string \<Rightarrow> string" where
  "sub_go r repl k [] = []"
| "sub_go r repl (Suc k) (c # t) = sub_go r repl k t"
| "sub_go r repl 0 (c # t) =
     (case rmatch r (c # t) Map.empty of
        [] \<Rightarrow> c # sub_go r repl 0 t
      | (s', cs) # _ \<Rightarrow>
          if length s' < length (c # t) then repl @ sub_go r repl (length t - length s') t
          else c # sub_go r repl 0 t)"

definition re_sub :: "rx \<Rightarrow> string \<Rightarrow> string \<Rightarrow> string" where
  "re_sub r repl s = sub_go r repl 0 s"

section \<open>Numbers read from text\<close>

definition int_of_digits :: "string \<Rightarrow> int" where
  "int_of_digits s = foldl (\<lambda>a c. 10 * a + (of_char c - 48)) 0 s"

text \<open>
  \<^verbatim>\<open>int(s)\<close>: blanks around the text are dropped, then an optional sign and decimal digits,
  where single underscores may separate digits.
\<close>

definition int_body_ok :: "string \<Rightarrow> bool" where
  "int_body_ok s =
     (s \<noteq> [] \<and> (\<forall>c \<in> set s. is_digit c \<or> c = CHR ''_'')
      \<and> is_digit (hd s) \<and> is_digit (last s) \<and> \<not> py_in ''__'' s)"

definition py_int :: "string \<Rightarrow> exn + int" where
  "py_int s =
     (let t = py_strip s;
          neg = startswith t ''-'';
          body = (if startswith t ''-'' \<or> startswith t ''+'' then tl t else t)
      in if int_body_ok body
         then Inr ((if neg then - 1 else 1) * int_of_digits (filter is_digit body))
         else Inl ValueError)"

subsection \<open>Decimal numbers\<close>

text \<open>
  A \<^verbatim>\<open>Decimal\<close> is a sign, a coefficient (never negative) and an exponent, or one of the
  special values.
  The arithmetic context is the default one: 28 digits of precision, rounding half to even,
  exponents between -999999 and 999999, and the overflow and invalid-operation signals raise.
\<close>

datatype decimal =
    Finite bool int int
  | Infinite bool
  | QNaN
  | SNaN

definition prec :: nat where "prec = 28"
definition Emax :: int where "Emax = 999999"
definition Emin :: int where "Emin = - 999999"
definition Etiny :: int where "Etiny = Emin - int prec + 1"
definition Etop :: int where "Etop = Emax - int prec + 1"

function ndigits :: "int \<Rightarrow> nat" where
  "ndigits n = (if n < 10 then 1 else Suc (ndigits (n div 10)))"
  by pat_completeness auto
termination
  by (relation "measure nat") auto

text \<open>
  \<^verbatim>\<open>Decimal(s)\<close> for a text: blanks around it and underscores are dropped; then a sign and
  either digits with an optional fraction and exponent, or a spelling of infinity or NaN in
  any letter case. Anything else raises \<^verbatim>\<open>InvalidOperation\<close>.
\<close>

definition exponent_of_string :: "string \<Rightarrow> int option" where
  "exponent_of_string s =
     (if s = [] then Some 0
      else if hd s = CHR ''e'' \<or> hd s = CHR ''E'' then
        (let t = tl s;
             neg = startswith t ''-'';
             ds = (if startswith t ''-'' \<or> startswith t ''+'' then tl t else t)
         in if ds \<noteq> [] \<and> (\<forall>c \<in> set ds. is_digit c)
            then Some ((if neg then - 1 else 1) * int_of_digits ds) else None)
      else None)"

definition number_of_string :: "bool \<Rightarrow> string \<Rightarrow> exn + decimal" where
  "number_of_string neg body =
     (let ip = takeWhile is_digit body;
          r1 = dropWhile is_digit body;
          dotted = startswith r1 ''.'';
          fp = (if dotted then takeWhile is_digit (tl r1) else []);
          r2 = (if dotted then dropWhile is_digit (tl r1) else r1)
      in if ip = [] \<and> fp = [] then Inl InvalidOperation
         else case exponent_of_string r2 of
                None \<Rightarrow> Inl InvalidOperation
              | Some e \<Rightarrow> Inr (Finite neg (int_of_digits (ip @ fp)) (e - int (length fp))))"

definition decimal_of_string :: "string \<Rightarrow> exn + decimal" where
  "decimal_of_string s =
     (let t = filter (\<lambda>c. c \<noteq> CHR ''_'') (py_strip s);
          neg = startswith t ''-'';
          body = (if startswith t ''-'' \<or> startswith t ''+'' then tl t else t);
          low = py_lower body
      in if low = ''inf'' \<or> low = ''infinity'' then Inr (Infinite neg)
         else if startswith low ''nan'' \<and> (\<forall>c \<in> set (drop 3 low). is_digit c) then Inr QNaN
         else if startswith low ''snan'' \<and> (\<forall>c \<in> set (drop 4 low). is_digit c) then Inr SNaN
         else number_of_string neg body)"

text \<open>
  The final rounding of an arithmetic result to the context. A coefficient of more than
  \<open>prec\<close> digits is cut, rounding half to even.
\<close>

definition decimal_fix :: "bool \<Rightarrow> int \<Rightarrow> int \<Rightarrow> exn + decimal" where
  "decimal_fix sg c e =
     (if c = 0 then Inr (Finite sg 0 (min (max e Etiny) Emax))
      else
        let em0 = int (ndigits c) + e - int prec in
        if em0 > Etop then Inl DecimalOverflow
        else
          let em = (if em0 < Etiny then Etiny else em0) in
          if e < em then
            let digits = int (ndigits c) + e - em;
                c1 = (if digits < 0 then 1 else c);
                k = (if digits < 0 then 1 else nat (int (ndigits c) - digits));
                kept = c1 div 10 ^ k;
                dropped = c1 mod 10 ^ k;
                half = 5 * 10 ^ (k - 1);
                up = (dropped > half \<or> (dropped = half \<and> odd kept));
                kept1 = (if up then kept + 1 else kept);
                over = (up \<and> ndigits kept1 > prec);
                kept2 = (if over then kept1 div 10 else kept1);
                em2 = (if over then em + 1 else em)
            in if em2 > Etop then Inl DecimalOverflow else Inr (Finite sg kept2 em2)
          else Inr (Finite sg c e))"

text \<open>Trailing zeros of an exact quotient are removed while the exponent is below the ideal
  one; \<open>k\<close> is the number of steps still allowed.\<close>

fun strip_zeros :: "nat \<Rightarrow> int \<Rightarrow> int \<Rightarrow> int \<times> int" where
  "strip_zeros 0 c e = (c, e)"
| "strip_zeros (Suc k) c e = (if c mod 10 = 0 then strip_zeros k (c div 10) (e + 1) else (c, e))"

text \<open>The quotient of two finite numbers, the divisor not zero.\<close>

definition decimal_div_finite :: "bool \<Rightarrow> int \<Rightarrow> int \<Rightarrow> bool \<Rightarrow> int \<Rightarrow> int \<Rightarrow> exn + decimal" where
  "decimal_div_finite s1 c1 e1 s2 c2 e2 =
     (let sg = (s1 \<noteq> s2) in
      if c1 = 0 then decimal_fix sg 0 (e1 - e2)
      else
        let shift = int (ndigits c2) - int (ndigits c1) + int prec + 1;
            e = e1 - e2 - shift;
            num = (if 0 \<le> shift then c1 * 10 ^ nat shift else c1);
            den = (if 0 \<le> shift then c2 else c2 * 10 ^ nat (- shift));
            q = num div den;
            r = num mod den
        in if r \<noteq> 0 then decimal_fix sg (if q mod 5 = 0 then q + 1 else q) e
           else case strip_zeros (nat (e1 - e2 - e)) q e of (q', e') \<Rightarrow> decimal_fix sg q' e')"

text \<open>
  \<^verbatim>\<open>Decimal(1e6)\<close>: the float \<^verbatim>\<open>1e6\<close> is the integer one million, which the conversion
  keeps exactly.
\<close>

definition decimal_1e6 :: decimal where
  "decimal_1e6 = Finite False 1000000 0"

text \<open>\<^verbatim>\<open>Decimal(x / Decimal(1e6))\<close>.\<close>

definition div_1e6 :: "decimal \<Rightarrow> exn + decimal" where
  "div_1e6 x =
     (case x of
        SNaN \<Rightarrow> Inl InvalidOperation
      | QNaN \<Rightarrow> Inr QNaN
      | Infinite s \<Rightarrow> Inr (Infinite s)
      | Finite s c e \<Rightarrow> decimal_div_finite s c e False 1000000 0)"

text \<open>The rational number a finite decimal stands for.\<close>

definition decimal_value :: "decimal \<Rightarrow> rat option" where
  "decimal_value d =
     (case d of
        Finite s c e \<Rightarrow>
          Some ((if s then - 1 else 1) * of_int c * (if 0 \<le> e then 10 ^ nat e else 1 / 10 ^ nat (- e)))
      | _ \<Rightarrow> None)"

subsection \<open>Dates\<close>

text \<open>
  A \<^verbatim>\<open>datetime\<close> is a number of microseconds since \<^verbatim>\<open>datetime.min\<close>. \<^verbatim>\<open>timedelta(days=n)\<close>
  and the subtraction raise \<^verbatim>\<open>OverflowError\<close> outside their ranges.
\<close>

definition timedelta_days :: "int \<Rightarrow> exn + int" where
  "timedelta_days n =
     (if - 999999999 \<le> n \<and> n \<le> 999999999 then Inr (n * 86400000000) else Inl OverflowError)"

definition datetime_sub :: "int \<Rightarrow> int \<Rightarrow> exn + int" where
  "datetime_sub t d =
     (if 0 \<le> t - d \<and> t - d < 3652059 * 86400000000 then Inr (t - d) else Inl OverflowError)"

section \<open>Values of the result record\<close>

datatype pyval =
    PNone
  | PStr string
  | PList "pyval list"
  | PDecimal decimal
  | PDateTime int
  | PNode node
  | PDict "(string \<times> pyval) list"

type_synonym dict = "string \<rightharpoonup> pyval"

text \<open>\<^verbatim>\<open>repr(s)\<close> of a text and \<^verbatim>\<open>str(xs)\<close> of a list of texts.\<close>

definition hex_digit :: "int \<Rightarrow> char" where
  "hex_digit d = (if d < 10 then char_of (48 + d) else char_of (87 + d))"

definition repr_char :: "char \<Rightarrow> char \<Rightarrow> string" where
  "repr_char q c = (let n = (of_char c :: int) in
     if c = q \<or> c = CHR 0x5C then [CHR 0x5C, c]
     else if n = 9 then [CHR 0x5C, CHR ''t'']
     else if n = 10 then [CHR 0x5C, CHR ''n'']
     else if n = 13 then [CHR 0x5C, CHR ''r'']
     else if n < 32 \<or> (127 \<le> n \<and> n \<le> 160) \<or> n = 173
       then [CHR 0x5C, CHR ''x'', hex_digit (n div 16), hex_digit (n mod 16)]
     else [c])"

definition py_repr :: "string \<Rightarrow> string" where
  "py_repr s =
     (let q = (if CHR 0x27 \<in> set s \<and> CHR 0x22 \<notin> set s then CHR 0x22 else CHR 0x27)
      in [q] @ concat (map (repr_char q) s) @ [q])"

definition str_of_list :: "string list \<Rightarrow> string" where
  "str_of_list xs = ''['' @ py_join '', '' (map py_repr xs) @ '']''"

section \<open>The collaborators: constants module and library functions\<close>

text \<open>
  The module \<^verbatim>\<open>scrapezillow.constants\<close> is imported by the scraper; its values are taken as
  a parameter. \<^verbatim>\<open>urljoin\<close> and \<^verbatim>\<open>unquote\<close> of the URL library are parameters as well.
\<close>

record constants =
  ZILLOW_URL :: string
  ZILLOW_HOMES_URL :: string
  HOME_VALUE :: string
  PROP_SUMMARY_CLASS :: string
  DESCRIPTION :: string
  FACT_GROUPING :: string
  HOME_TYPES :: "string list"

record urllib =
  urljoin :: "string \<Rightarrow> string \<Rightarrow> string"
  unquote :: "string \<Rightarrow> string"

text \<open>
  The HTTP client (\<^verbatim>\<open>request_class\<close>), the HTML parser and the clock are collaborators too.
  A response has a status code, the address it was finally served from, and a body; the body
  is a text, and \<^verbatim>\<open>str\<close> of it is the same text.
\<close>

record response =
  status_code :: int
  final_url :: string
  content :: string

record env =
  constants_of :: constants
  urllib_of :: urllib
  BeautifulSoup :: "string \<Rightarrow> node"
  request_get :: "string \<Rightarrow> int \<Rightarrow> exn + response"
  datetime_now :: int

text \<open>
  What a call leaves behind besides its result: the addresses requested, in order, and the
  messages printed and logged.
\<close>

datatype log_entry = Printed string | LoggedException exn

record world =
  requested :: "string list"
  logged :: "log_entry list"

definition OK :: int where
  "OK = 200"

section \<open>Fetching\<close>

definition get_raw_html :: "env \<Rightarrow> string \<Rightarrow> int \<Rightarrow> world \<Rightarrow> (exn + string) \<times> world" where
  "get_raw_html ev u timeout w =
     (let w' = w\<lparr>requested := requested w @ [u]\<rparr> in
      case request_get ev u timeout of
        Inl e \<Rightarrow> (Inl e, w')
      | Inr r \<Rightarrow>
          if status_code r \<noteq> OK then (Inl FetchException, w')
          else if final_url r = ZILLOW_HOMES_URL (constants_of ev) then (Inl FetchException, w')
          else (Inr (content r), w'))"

section \<open>Field extractors\<close>

text \<open>\<^verbatim>\<open>_check_for_null_result\<close>: the argument is \<^verbatim>\<open>None\<close> or a tag or a match object, and
  tags and match objects are true.\<close>

definition check_for_null_result :: "'a option \<Rightarrow> exn + unit" where
  "check_for_null_result result = (case result of None \<Rightarrow> Inl NullResultException | Some x \<Rightarrow> Inr ())"

subsection \<open>Property summary\<close>

text \<open>The six patterns:
  \<^verbatim>\<open>([\d\.]+) beds?\<close>, \<^verbatim>\<open>([\d\.]+) baths?\<close>, \<^verbatim>\<open>([\d,\.]+) sqft\<close>,
  \<^verbatim>\<open>((?:[A-Z]\w+ ?){1,}), [A-Z]{2}\<close>, \<^verbatim>\<open>(?:[A-Z]\w+ ?){1,}, ([A-Z]{2})\<close> and
  \<^verbatim>\<open>[A-Z]{2} (\d{5}-?(?:\d{4})?)\<close>.\<close>

definition digit_dot :: "char \<Rightarrow> bool" where
  "digit_dot c = (is_digit c \<or> c = CHR ''.'')"

definition digit_comma_dot :: "char \<Rightarrow> bool" where
  "digit_comma_dot c = (is_digit c \<or> c = CHR '','' \<or> c = CHR ''.'')"

definition re_bedrooms :: rx where
  "re_bedrooms = Seqs [Grp 1 (Rep1 (Cls digit_dot)), Lits '' bed'', Opt (Lits ''s'')]"

definition re_bathrooms :: rx where
  "re_bathrooms = Seqs [Grp 1 (Rep1 (Cls digit_dot)), Lits '' bath'', Opt (Lits ''s'')]"

definition re_sqft :: rx where
  "re_sqft = Seqs [Grp 1 (Rep1 (Cls digit_comma_dot)), Lits '' sqft'']"

definition re_name_words :: rx where
  "re_name_words = Rep1 (Seqs [Cls is_upper_AZ, Rep1 (Cls is_word), Opt (Lits '' '')])"

definition re_city :: rx where
  "re_city = Seqs [Grp 1 re_name_words, Lits '', '', Cls is_upper_AZ, Cls is_upper_AZ]"

definition re_state :: rx where
  "re_state = Seqs [re_name_words, Lits '', '', Grp 1 (Seq (Cls is_upper_AZ) (Cls is_upper_AZ))]"

definition re_zipcode :: rx where
  "re_zipcode =
     Seqs [Cls is_upper_AZ, Cls is_upper_AZ, Lits '' '',
           Grp 1 (Seqs [Cls is_digit, Cls is_digit, Cls is_digit, Cls is_digit, Cls is_digit,
                        Opt (Lits ''-''),
                        Opt (Seqs [Cls is_digit, Cls is_digit, Cls is_digit, Cls is_digit])])]"

text \<open>The inner function \<^verbatim>\<open>parse_property\<close>: an \<^verbatim>\<open>IndexError\<close> stores \<^verbatim>\<open>None\<close>.\<close>

definition parse_property :: "string \<Rightarrow> rx \<Rightarrow> string \<Rightarrow> dict \<Rightarrow> exn + dict" where
  "parse_property prop_summary regex property results =
     (case findall_first regex prop_summary of
        Inr v \<Rightarrow> Inr (results(property \<mapsto> PStr v))
      | Inl e \<Rightarrow> if e = IndexError then Inr (results(property \<mapsto> PNone)) else Inl e)"

definition find_prop_summary :: "constants \<Rightarrow> node \<Rightarrow> node option" where
  "find_prop_summary k soup = find_tag soup (\<lambda>d. named ''div'' d \<and> has_class d (PROP_SUMMARY_CLASS k))"

definition get_property_summary :: "constants \<Rightarrow> node \<Rightarrow> exn + dict" where
  "get_property_summary k soup =
     (case find_prop_summary k soup of
        None \<Rightarrow> Inl NullResultException
      | Some d \<Rightarrow>
          let prop_summary = get_text d in
          bind (parse_property prop_summary re_bedrooms ''bedrooms'' Map.empty) (\<lambda>r1.
          bind (parse_property prop_summary re_bathrooms ''bathrooms'' r1) (\<lambda>r2.
          bind (parse_property prop_summary re_sqft ''sqft'' r2) (\<lambda>r3.
          bind (parse_property prop_summary re_city ''city'' r3) (\<lambda>r4.
          bind (parse_property prop_summary re_state ''state'' r4) (\<lambda>r5.
          parse_property prop_summary re_zipcode ''zipcode'' r5))))))"

subsection \<open>Description\<close>

definition find_description :: "constants \<Rightarrow> node \<Rightarrow> node option" where
  "find_description k soup = find_tag soup (\<lambda>d. named ''div'' d \<and> has_class d (DESCRIPTION k))"

definition get_description :: "constants \<Rightarrow> node \<Rightarrow> exn + string" where
  "get_description k soup =
     (case find_description k soup of None \<Rightarrow> Inl NullResultException | Some d \<Rightarrow> Inr (get_text d))"

subsection \<open>Photos\<close>

text \<open>\<^verbatim>\<open>i.get("href", i.get("src", None))\<close>, then \<^verbatim>\<open>filter(None, photos)\<close>, which drops
  \<^verbatim>\<open>None\<close> and the empty text.\<close>

definition photo_of :: "node \<Rightarrow> string option" where
  "photo_of i = (case get_attr i ''href'' of Some h \<Rightarrow> Some h | None \<Rightarrow> get_attr i ''src'')"

definition get_photos :: "node \<Rightarrow> pyval" where
  "get_photos soup =
     PList (concat (map (\<lambda>i. case photo_of i of None \<Rightarrow> [] | Some p \<Rightarrow> if p = [] then [] else [PStr p])
                        (select_ol_photos_img soup)))"

subsection \<open>Facts\<close>

definition get_fact_list :: "constants \<Rightarrow> node \<Rightarrow> node list" where
  "get_fact_list k soup =
     concat (map (\<lambda>g. find_all g (named ''li''))
                 (find_all soup (\<lambda>d. named ''ul'' d \<and> has_class d (FACT_GROUPING k))))"

text \<open>The patterns \<^verbatim>\<open>Built in (\d+)\<close>, \<^verbatim>\<open>(\d+) days\<close> and \<^verbatim>\<open>( #|# )\<close>.\<close>

definition re_built_in :: rx where
  "re_built_in = Seq (Lits ''Built in '') (Grp 1 (Rep1 (Cls is_digit)))"

definition re_days :: rx where
  "re_days = Seq (Grp 1 (Rep1 (Cls is_digit))) (Lits '' days'')"

definition re_hash :: rx where
  "re_hash = Grp 1 (Alt (Lits '' #'') (Lits ''# ''))"

text \<open>The body of the loop of \<^verbatim>\<open>_parse_facts\<close> for one fact, given its text.\<close>

definition parse_fact :: "constants \<Rightarrow> int \<Rightarrow> dict \<Rightarrow> string \<Rightarrow> exn + dict" where
  "parse_fact k now parsed_facts text =
     (if text \<in> set (HOME_TYPES k) then Inr (parsed_facts(''home_type'' \<mapsto> PStr text))
      else if py_in ''Built in'' text then
        bind (findall_first re_built_in text) (\<lambda>y. Inr (parsed_facts(''year'' \<mapsto> PStr y)))
      else if py_in ''days on Zillow'' text then
        bind (findall_first re_days text) (\<lambda>d. Inr (parsed_facts(''days_on_zillow'' \<mapsto> PStr d)))
      else if length (py_split CHR '':'' text) = 1 then
        (case parsed_facts ''extras'' of
           None \<Rightarrow> Inr (parsed_facts(''extras'' \<mapsto> PList [PStr text]))
         | Some (PList xs) \<Rightarrow> Inr (parsed_facts(''extras'' \<mapsto> PList (xs @ [PStr text])))
         | Some other \<Rightarrow> Inl AttributeError)
      else if py_in ''Posted'' text then
        (let split = py_split CHR '':'' (re_sub re_hash [] text) in
         bind (index_at split 1) (\<lambda>s1.
         bind (index_at (py_split CHR '' '' (py_strip s1)) 0) (\<lambda>days.
         bind (py_int days) (\<lambda>n.
         bind (timedelta_days n) (\<lambda>td.
         bind (datetime_sub now td) (\<lambda>posted_date.
         Inr (parsed_facts(''posted'' \<mapsto> PDateTime posted_date))))))))
      else
        (let split = py_split CHR '':'' (re_sub re_hash [] text) in
         bind (index_at split 1) (\<lambda>v.
         bind (index_at split 0) (\<lambda>key.
         Inr (parsed_facts(py_lower (py_replace '' '' ''_'' (py_strip key)) \<mapsto> PStr (py_strip v)))))))"

fun foldM :: "('s \<Rightarrow> 'a \<Rightarrow> exn + 's) \<Rightarrow> 's \<Rightarrow> 'a list \<Rightarrow> exn + 's" where
  "foldM f s [] = Inr s"
| "foldM f s (x # xs) = (case f s x of Inl e \<Rightarrow> Inl e | Inr s' \<Rightarrow> foldM f s' xs)"

definition parse_facts :: "constants \<Rightarrow> int \<Rightarrow> node list \<Rightarrow> exn + dict" where
  "parse_facts k now facts = foldM (\<lambda>parsed fact. parse_fact k now parsed (get_text fact)) Map.empty facts"

subsection \<open>Sale information\<close>

text \<open>The patterns of \<^verbatim>\<open>_get_sale_info\<close>: the labelled price
  \<^verbatim>\<open>(Foreclosure Estimate|Below Zestimate|Rent Zestimate|Zestimate|Sold on|Sold|Price cut)\<close>
  \<^verbatim>\<open>(?:\xae)?:?[\n ]+-?\$?([\d,\/\w]+)\<close>, the status
  \<^verbatim>\<open>(For Sale|Auction|Make Me Move|For Rent|Pre-Foreclosure|Off Market)\<close>, and the bare
  amounts \<^verbatim>\<open>\$?[\d,]+\<close> and \<^verbatim>\<open>\$?([\d,]+)\<close>.\<close>

definition newline_or_space :: "char \<Rightarrow> bool" where
  "newline_or_space c = (c = CHR 0x0A \<or> c = CHR '' '')"

definition price_char :: "char \<Rightarrow> bool" where
  "price_char c = (is_digit c \<or> c = CHR '','' \<or> c = CHR ''/'' \<or> is_word c)"

definition digit_comma :: "char \<Rightarrow> bool" where
  "digit_comma c = (is_digit c \<or> c = CHR '','')"

definition pricing_labels :: "string list" where
  "pricing_labels =
     [''Foreclosure Estimate'', ''Below Zestimate'', ''Rent Zestimate'', ''Zestimate'', ''Sold on'',
      ''Sold'', ''Price cut'']"

definition re_pricing_tail :: rx where
  "re_pricing_tail =
     Seqs [Opt (Lits [CHR 0xAE]), Opt (Lits '':''), Rep1 (Cls newline_or_space),
           Opt (Lits ''-''), Opt (Lits ''$''), Grp 2 (Rep1 (Cls price_char))]"

definition re_pricing :: rx where
  "re_pricing = Seq (Grp 1 (Alts pricing_labels)) re_pricing_tail"

definition re_status :: rx where
  "re_status =
     Grp 1 (Alts [''For Sale'', ''Auction'', ''Make Me Move'', ''For Rent'', ''Pre-Foreclosure'',
                  ''Off Market''])"

definition re_amount :: rx where
  "re_amount = Seq (Opt (Lits ''$'')) (Rep1 (Cls digit_comma))"

definition re_amount_group :: rx where
  "re_amount_group = Seq (Opt (Lits ''$'')) (Grp 1 (Rep1 (Cls digit_comma)))"

text \<open>The body of the loop over the summary rows.\<close>

definition sale_row :: "dict \<Rightarrow> node \<Rightarrow> exn + dict" where
  "sale_row sale_info row =
     (let text = get_text row in
      case re_search re_pricing text of
        Some (m, cs) \<Rightarrow>
          Inr (sale_info(py_lower (py_replace '' '' ''_'' (py_strip (match_group cs 1))) \<mapsto> PStr (match_group cs 2)))
      | None \<Rightarrow>
          (case re_search re_status text of
             Some (m, cs) \<Rightarrow> Inr (sale_info(''status'' \<mapsto> PStr (match_group cs 1)))
           | None \<Rightarrow>
               (case re_search re_amount text of
                  Some m \<Rightarrow> bind (findall_first re_amount_group text)
                                 (\<lambda>p. Inr (sale_info(''price'' \<mapsto> PStr p)))
                | None \<Rightarrow> Inr sale_info)))"

text \<open>The body of the loop over the numbered zestimate titles.\<close>

definition zest_step :: "node list \<Rightarrow> dict \<Rightarrow> nat \<times> node \<Rightarrow> exn + dict" where
  "zest_step zestimates_values sale_info iz =
     (case iz of (i, zest) \<Rightarrow>
        if py_in ''rent'' (str_of_list (find_all_text zest)) then
          bind (index_at zestimates_values i) (\<lambda>v.
          bind (index_at (find_all_text v) 0) (\<lambda>t.
          bind (findall_first re_amount_group t) (\<lambda>p.
          Inr (sale_info(''rent_zestimate'' \<mapsto> PStr p)))))
        else Inr sale_info)"

definition sale_info_init :: dict where
  "sale_info_init =
     [''price'' \<mapsto> PNone, ''status'' \<mapsto> PNone, ''zestimate'' \<mapsto> PNone, ''rent_zestimate'' \<mapsto> PNone]"

definition find_value_wrapper :: "constants \<Rightarrow> node \<Rightarrow> node option" where
  "find_value_wrapper k soup = find_tag soup (\<lambda>d. named ''div'' d \<and> attr_is d ''id'' (HOME_VALUE k))"

definition get_sale_info :: "constants \<Rightarrow> node \<Rightarrow> exn + dict" where
  "get_sale_info k soup =
     (case find_value_wrapper k soup of
        None \<Rightarrow> Inl AttributeError
      | Some value_wrapper \<Rightarrow>
          bind (foldM sale_row sale_info_init
                  (find_all value_wrapper (\<lambda>d. has_class_containing d ''home-summary-row'')))
            (\<lambda>sale_info.
               foldM (zest_step (find_all soup (\<lambda>d. named ''div'' d \<and> has_class d ''zest-value'')))
                 sale_info
                 (enumerate 0 (find_all soup (\<lambda>d. named ''div'' d \<and> has_class d ''zest-title'')))))"

subsection \<open>Geolocation\<close>

text \<open>The truth value of a stored coordinate: \<^verbatim>\<open>None\<close>, a zero and an empty text are false.\<close>

fun truthy :: "pyval \<Rightarrow> bool" where
  "truthy PNone = False"
| "truthy (PStr s) = (s \<noteq> [])"
| "truthy (PList xs) = (xs \<noteq> [])"
| "truthy (PDecimal (Finite s c e)) = (c \<noteq> 0)"
| "truthy (PDecimal d) = True"
| "truthy (PDateTime t) = True"
| "truthy (PNode n) = True"
| "truthy (PDict kv) = (kv \<noteq> [])"

text \<open>The part of the primary path inside \<^verbatim>\<open>try\<close>: every exception gives \<^verbatim>\<open>None\<close> twice.\<close>

definition coords_of_comment :: "string list \<Rightarrow> pyval \<times> pyval" where
  "coords_of_comment parsed_comments =
     (case bind (index_last2 parsed_comments) (\<lambda>a. bind (decimal_of_string a) div_1e6) of
        Inl e \<Rightarrow> (PNone, PNone)
      | Inr lat \<Rightarrow>
          (case bind (index_last parsed_comments)
                  (\<lambda>b. bind (decimal_of_string (filter (\<lambda>a. a \<noteq> CHR 0x5C) b)) div_1e6) of
             Inl e \<Rightarrow> (PNone, PNone)
           | Inr lon \<Rightarrow> (PDecimal lat, PDecimal lon)))"

definition parse_comment :: "string \<Rightarrow> string list" where
  "parse_comment c = py_split CHR '','' (py_strip_chars '']'' (py_strip_chars ''['' c))"

text \<open>\<^verbatim>\<open>elem.attrs[key]\<close> where \<^verbatim>\<open>elem\<close> may be \<^verbatim>\<open>None\<close>.\<close>

definition elem_attr :: "node option \<Rightarrow> string \<Rightarrow> exn + string" where
  "elem_attr elem key =
     (case elem of
        None \<Rightarrow> Inl AttributeError
      | Some d \<Rightarrow> (case get_attr d key of None \<Rightarrow> Inl KeyError | Some v \<Rightarrow> Inr v))"

text \<open>\<^verbatim>\<open>s.index(sub)\<close>.\<close>

fun py_find :: "string \<Rightarrow> string \<Rightarrow> nat option" where
  "py_find sub [] = (if sub = [] then Some 0 else None)"
| "py_find sub (c # cs) = (if startswith (c # cs) sub then Some 0 else map_option Suc (py_find sub cs))"

definition py_index :: "string \<Rightarrow> string \<Rightarrow> exn + nat" where
  "py_index s sub = (case py_find sub s of None \<Rightarrow> Inl ValueError | Some i \<Rightarrow> Inr i)"

definition address_of :: "urllib \<Rightarrow> node option \<Rightarrow> pyval" where
  "address_of lib elem =
     (case bind (elem_attr elem ''data-direction'') (\<lambda>direction.
             let addr_url = unquote lib direction in
             bind (py_index addr_url ''addr='') (\<lambda>i.
             let s1 = drop (i + 5) addr_url in
             bind (py_index s1 ''&'') (\<lambda>j.
             let s2 = py_replace '' ,'' '', '' (py_replace ''+'' '' '' (take j s1)) in
             if length s2 < 5 then Inl IndexError
             else if s2 ! (length s2 - 5) = CHR ''-'' then Inr (take (length s2 - 5) s2)
             else Inr s2))) of
        Inl e \<Rightarrow> PNone
      | Inr a \<Rightarrow> PStr a)"

definition find_marker :: "node \<Rightarrow> node option" where
  "find_marker soup = find_tag soup (\<lambda>d. named ''div'' d \<and> has_class d ''homeMarkerData'')"

definition find_coordinates_elem :: "node \<Rightarrow> node option" where
  "find_coordinates_elem soup = find_tag soup (\<lambda>d. attr_is d ''id'' ''hdp-map-coordinates'')"

definition get_location_data :: "urllib \<Rightarrow> node \<Rightarrow> exn + pyval" where
  "get_location_data lib soup =
     bind (case find_marker soup of
             Some location_data_div \<Rightarrow>
               (case find_comment location_data_div of
                  None \<Rightarrow> Inl AttributeError
                | Some c \<Rightarrow> Inr (coords_of_comment (parse_comment c)))
           | None \<Rightarrow> Inr (PNone, PNone))
       (\<lambda>(lat0, lon0).
          let location_data_elem = find_coordinates_elem soup in
          bind (if truthy lat0 then Inr lat0
                else map_sum id PStr (elem_attr location_data_elem ''data-latitude'')) (\<lambda>lat.
          bind (if truthy lon0 then Inr lon0
                else map_sum id PStr (elem_attr location_data_elem ''data-longitude'')) (\<lambda>lon.
          Inr (PDict [(''latitude'', lat), (''longitude'', lon),
                      (''address'', address_of lib location_data_elem)]))))"

section \<open>Price and tax histories\<close>

text \<open>The pattern of \<^verbatim>\<open>_get_ajax_url\<close>, with the module label put in by \<^verbatim>\<open>format\<close>:
  \<^verbatim>\<open>(\/AjaxRender.htm\?encparams=[\w\-_~=]+&rwebid=\d+&rhost=\d)\<close> followed by the quoted
  text \<^verbatim>\<open>,customEvent:\<close>, \<^verbatim>\<open>CollapsibleModule:expandSection\<close>, \<^verbatim>\<open>,jsModule:\<close> and the
  label. \<open>dq\<close> is the double quote.\<close>

definition dq :: char where
  "dq = CHR 0x22"

definition param_char :: "char \<Rightarrow> bool" where
  "param_char c = (is_word c \<or> c = CHR ''-'' \<or> c = CHR ''_'' \<or> c = CHR ''~'' \<or> c = CHR ''='')"

definition re_ajax :: "string \<Rightarrow> rx" where
  "re_ajax label =
     Seqs [Grp 1 (Seqs [Lits ''/AjaxRender'', Cls any_char, Lits ''htm?encparams='',
                        Rep1 (Cls param_char), Lits ''&rwebid='', Rep1 (Cls is_digit),
                        Lits ''&rhost='', Cls is_digit]),
           Lits ([dq] @ '',customEvent:'' @ [dq] @ ''CollapsibleModule:expandSection'' @ [dq]
                 @ '',jsModule:'' @ [dq] @ label)]"

definition get_ajax_url :: "node \<Rightarrow> string \<Rightarrow> exn + string" where
  "get_ajax_url soup label =
     (case re_search (re_ajax label) (get_text soup) of
        None \<Rightarrow> Inl NullResultException
      | Some (m, cs) \<Rightarrow> Inr (''http://www.zillow.com'' @ match_group cs 1))"

text \<open>The envelope pattern \<^verbatim>\<open> { "html": "(.*)" }\<close> and the two patterns that undo the
  escaping of quotes and slashes.\<close>

definition re_envelope :: rx where
  "re_envelope =
     Seqs [Lits ('' { '' @ [dq] @ ''html'' @ [dq] @ '': '' @ [dq]), Grp 1 (Star (Cls any_char)),
           Lits ([dq] @ '' }'')]"

definition re_escaped_quote :: rx where
  "re_escaped_quote = Lits [CHR 0x5C, dq]"

definition re_escaped_slash :: rx where
  "re_escaped_slash = Lits [CHR 0x5C, CHR ''/'']"

definition get_table_body :: "env \<Rightarrow> string \<Rightarrow> int \<Rightarrow> world \<Rightarrow> (exn + node option) \<times> world" where
  "get_table_body ev ajax_url request_timeout w =
     (case get_raw_html ev ajax_url request_timeout w of
        (Inl e, w') \<Rightarrow> (Inl e, w')
      | (Inr html, w') \<Rightarrow>
          (case re_search re_envelope html of
             None \<Rightarrow> (Inl AttributeError, w')
           | Some (m, cs) \<Rightarrow>
               let html1 = re_sub re_escaped_quote [dq] (match_group cs 1);
                   html2 = re_sub re_escaped_slash ''/'' html1;
                   soup = BeautifulSoup ev html2
               in case find_tag soup (named ''table'') of
                    None \<Rightarrow> (Inl ValueError, w')
                  | Some table \<Rightarrow> (Inr (find_tag table (named ''tbody'')), w')))"

fun mapM :: "('a \<Rightarrow> exn + 'b) \<Rightarrow> 'a list \<Rightarrow> exn + 'b list" where
  "mapM f [] = Inr []"
| "mapM f (x # xs) =
     (case f x of
        Inl e \<Rightarrow> Inl e
      | Inr y \<Rightarrow> (case mapM f xs of Inl e \<Rightarrow> Inl e | Inr ys \<Rightarrow> Inr (y # ys)))"

text \<open>\<^verbatim>\<open>table_body.find_all('tr')\<close> where \<^verbatim>\<open>table_body\<close> may be \<^verbatim>\<open>None\<close>.\<close>

definition rows_of :: "node option \<Rightarrow> exn + node list" where
  "rows_of table_body =
     (case table_body of None \<Rightarrow> Inl AttributeError | Some b \<Rightarrow> Inr (find_all b (named ''tr'')))"

text \<open>The bodies of the two row loops.\<close>

definition price_row :: "node \<Rightarrow> exn + pyval" where
  "price_row row =
     (let cols = find_all row (named ''td'') in
      bind (index_at cols 0) (\<lambda>c0.
      bind (index_at cols 1) (\<lambda>c1.
      bind (case index_at cols 2 of
              Inl e \<Rightarrow> if e = IndexError then Inr None else Inl e
            | Inr c2 \<Rightarrow> Inr (find_tag c2 (named ''span''))) (\<lambda>price_span.
      Inr (PList [PStr (get_text c0), PStr (get_text c1),
                  (case price_span of None \<Rightarrow> PNone | Some sp \<Rightarrow> PStr (get_text sp))])))))"

definition tax_row :: "node \<Rightarrow> exn + pyval" where
  "tax_row row =
     (let cols = find_all row (named ''td'') in
      bind (index_at cols 0) (\<lambda>c0.
      bind (index_at cols 1) (\<lambda>c1.
      bind (index_at (contents c1) 0) (\<lambda>tax.
      bind (index_at cols 3) (\<lambda>c3.
      Inr (PList [PStr (get_text c0), PNode tax, PStr (get_text c3)]))))))"

definition get_price_history :: "env \<Rightarrow> string \<Rightarrow> int \<Rightarrow> world \<Rightarrow> (exn + pyval list) \<times> world" where
  "get_price_history ev ajax_url request_timeout w =
     (case get_table_body ev ajax_url request_timeout w of
        (Inl e, w') \<Rightarrow> (Inl e, w')
      | (Inr table_body, w') \<Rightarrow> (bind (rows_of table_body) (mapM price_row), w'))"

definition get_tax_history :: "env \<Rightarrow> string \<Rightarrow> int \<Rightarrow> world \<Rightarrow> (exn + pyval list) \<times> world" where
  "get_tax_history ev ajax_url request_timeout w =
     (case get_table_body ev ajax_url request_timeout w of
        (Inl e, w') \<Rightarrow> if e = ValueError then (Inr [], w') else (Inl e, w')
      | (Inr table_body, w') \<Rightarrow> (bind (rows_of table_body) (mapM tax_row), w'))"

text \<open>What the orchestrator prints when it catches \<^verbatim>\<open>NullResultException\<close>.\<close>

definition price_message :: string where
  "price_message = ''Unable to get price history.  Perhaps this is not a valid listing or the html changed and we are unable to use the scraper. If the latter, file a bug at https://github.com/hahnicity/scrapezillow/issues''"

definition tax_message :: string where
  "tax_message = ''Unable to get tax history.  Perhaps this is not a valid listing or the html changed and we are unable to use the scraper. If the latter, file a bug at https://github.com/hahnicity/scrapezillow/issues''"

section \<open>Input validation\<close>

text \<open>
  \<^verbatim>\<open>url\<close> is \<^verbatim>\<open>None\<close> or a string, \<^verbatim>\<open>zpid\<close> is \<^verbatim>\<open>None\<close> or an integer. Python's truth
  value of \<^verbatim>\<open>None\<close>, of the empty string and of the integer zero is false.
\<close>

definition truthy_str :: "string option \<Rightarrow> bool" where
  "truthy_str u = (case u of None \<Rightarrow> False | Some s \<Rightarrow> s \<noteq> [])"

definition truthy_int :: "int option \<Rightarrow> bool" where
  "truthy_int z = (case z of None \<Rightarrow> False | Some i \<Rightarrow> i \<noteq> 0)"

definition format_zpid :: "int option \<Rightarrow> string" where
  "format_zpid z = (case z of None \<Rightarrow> ''None'' | Some i \<Rightarrow> str_int i)"

definition zpid_path :: "int option \<Rightarrow> string" where
  "zpid_path z = ''homes/'' @ format_zpid z @ ''_zpid/(index)/''"

definition validate_scraper_input ::
  "urllib \<Rightarrow> constants \<Rightarrow> string option \<Rightarrow> int option \<Rightarrow> exn + string" where
  "validate_scraper_input lib k url zpid =
     (if truthy_str url \<and> truthy_int zpid then Inl ValueError
      else if \<not> truthy_str url \<and> \<not> truthy_int zpid then Inl ValueError
      else case url of
             Some u \<Rightarrow>
               if u \<noteq> [] \<and> \<not> py_in ''homes'' u then Inl ValueError
               else if u \<noteq> [] then Inr u
               else Inr (urljoin lib (ZILLOW_URL k) (zpid_path zpid))
           | None \<Rightarrow> Inr (urljoin lib (ZILLOW_URL k) (zpid_path zpid)))"

section \<open>Orchestrator\<close>

text \<open>The keys the summary extractor and the sale-info extractor always store, the keys
  the sale-info extractor may store, and the keys stored after the sale information.\<close>

definition summary_keys :: "string list" where
  "summary_keys = [''bedrooms'', ''bathrooms'', ''sqft'', ''city'', ''state'', ''zipcode'']"

definition sale_keys :: "string list" where
  "sale_keys = [''price'', ''status'', ''zestimate'', ''rent_zestimate'']"

definition sale_label_keys :: "string list" where
  "sale_label_keys =
     [''foreclosure_estimate'', ''below_zestimate'', ''rent_zestimate'', ''zestimate'', ''sold_on'',
      ''sold'', ''price_cut'']"

definition later_keys :: "string list" where
  "later_keys = [''description'', ''photos'', ''location_data'', ''price_history'', ''tax_history'']"

text \<open>A dictionary as the sale-info extractor builds it: the four keys it starts with are
  there, and every key is one of these or comes from a pricing label.\<close>

definition sale_dict :: "dict \<Rightarrow> bool" where
  "sale_dict d \<longleftrightarrow> set sale_keys \<subseteq> dom d \<and> dom d \<subseteq> set sale_keys \<union> set sale_label_keys"

definition log_failure :: "string \<Rightarrow> world \<Rightarrow> world" where
  "log_failure msg w = w\<lparr>logged := logged w @ [Printed msg, LoggedException NullResultException]\<rparr>"

text \<open>One \<^verbatim>\<open>try\<close> block of \<^verbatim>\<open>populate_price_and_tax_histories\<close>: locate the address,
  fetch the rows and store them under the key; only \<^verbatim>\<open>NullResultException\<close> is caught.\<close>

definition populate_one ::
  "(string \<Rightarrow> int \<Rightarrow> world \<Rightarrow> (exn + pyval list) \<times> world) \<Rightarrow> string \<Rightarrow> string \<Rightarrow> string
   \<Rightarrow> node \<Rightarrow> dict \<Rightarrow> int \<Rightarrow> world \<Rightarrow> (exn + dict) \<times> world" where
  "populate_one fetch label key msg soup results request_timeout w =
     (case get_ajax_url soup label of
        Inl e \<Rightarrow>
          if e = NullResultException then (Inr results, log_failure msg w) else (Inl e, w)
      | Inr ajax_url \<Rightarrow>
          (case fetch ajax_url request_timeout w of
             (Inl e, w') \<Rightarrow>
               if e = NullResultException then (Inr results, log_failure msg w') else (Inl e, w')
           | (Inr rows, w') \<Rightarrow> (Inr (results(key \<mapsto> PList rows)), w')))"

definition populate_price_and_tax_histories ::
  "env \<Rightarrow> node \<Rightarrow> dict \<Rightarrow> int \<Rightarrow> world \<Rightarrow> (exn + dict) \<times> world" where
  "populate_price_and_tax_histories ev soup results request_timeout w =
     (case populate_one (get_price_history ev) ''z-hdp-price-history'' ''price_history''
             price_message soup results request_timeout w of
        (Inl e, w1) \<Rightarrow> (Inl e, w1)
      | (Inr results1, w1) \<Rightarrow>
          populate_one (get_tax_history ev) ''z-expando-table'' ''tax_history''
            tax_message soup results1 request_timeout w1)"

text \<open>The extraction steps of \<^verbatim>\<open>scrape_url\<close> between parsing and the histories, in the
  order of the source; the later \<^verbatim>\<open>update\<close> overwrites.\<close>

definition extract_record :: "env \<Rightarrow> node \<Rightarrow> exn + dict" where
  "extract_record ev soup =
     bind (get_property_summary (constants_of ev) soup) (\<lambda>results.
     bind (parse_facts (constants_of ev) (datetime_now ev) (get_fact_list (constants_of ev) soup)) (\<lambda>facts.
     bind (get_sale_info (constants_of ev) soup) (\<lambda>sale_info.
     bind (get_description (constants_of ev) soup) (\<lambda>description.
     bind (get_location_data (urllib_of ev) soup) (\<lambda>location_data.
     Inr ((results ++ facts ++ sale_info)
            (''description'' \<mapsto> PStr description,
             ''photos'' \<mapsto> get_photos soup,
             ''location_data'' \<mapsto> location_data)))))))"

definition scrape_url ::
  "env \<Rightarrow> string option \<Rightarrow> int option \<Rightarrow> int \<Rightarrow> bool \<Rightarrow> world \<Rightarrow> (exn + dict) \<times> world" where
  "scrape_url ev url zpid request_timeout get_price_and_tax_info w =
     (case validate_scraper_input (urllib_of ev) (constants_of ev) url zpid of
        Inl e \<Rightarrow> (Inl e, w)
      | Inr u \<Rightarrow>
          (case get_raw_html ev u request_timeout w of
             (Inl e, w1) \<Rightarrow> (Inl e, w1)
           | (Inr html, w1) \<Rightarrow>
               let soup = BeautifulSoup ev html in
               (case extract_record ev soup of
                  Inl e \<Rightarrow> (Inl e, w1)
                | Inr results \<Rightarrow>
                    if get_price_and_tax_info
                    then populate_price_and_tax_histories ev soup results request_timeout w1
                    else (Inr results, w1))))"

section \<open>The classification of facts as an ordered list of rules\<close>

text \<open>
  The six rules in their priority order, each with the condition under which it applies;
  a rule fires on a text when it applies and no earlier rule does.
\<close>

datatype fact_rule = HomeType | BuiltIn | DaysOnZillow | ExtrasAppend | Posted | KeyValue

fun rule_guard :: "constants \<Rightarrow> fact_rule \<Rightarrow> string \<Rightarrow> bool" where
  "rule_guard k HomeType text = (text \<in> set (HOME_TYPES k))"
| "rule_guard k BuiltIn text = py_in ''Built in'' text"
| "rule_guard k DaysOnZillow text = py_in ''days on Zillow'' text"
| "rule_guard k ExtrasAppend text = (CHR '':'' \<notin> set text)"
| "rule_guard k Posted text = py_in ''Posted'' text"
| "rule_guard k KeyValue text = True"

definition rule_order :: "fact_rule list" where
  "rule_order = [HomeType, BuiltIn, DaysOnZillow, ExtrasAppend, Posted, KeyValue]"

definition fires :: "constants \<Rightarrow> string \<Rightarrow> fact_rule \<Rightarrow> bool" where
  "fires k text r =
     (rule_guard k r text \<and> (\<forall>q \<in> set (takeWhile (\<lambda>q. q \<noteq> r) rule_order). \<not> rule_guard k q text))"

definition classify :: "constants \<Rightarrow> string \<Rightarrow> fact_rule" where
  "classify k text =
     (case List.find (\<lambda>r. rule_guard k r text) rule_order of Some r \<Rightarrow> r | None \<Rightarrow> KeyValue)"

text \<open>The text before the first occurrence of a character, and the text after that
  occurrence (empty when there is none).\<close>

definition before_char :: "char \<Rightarrow> string \<Rightarrow> string" where
  "before_char c s = takeWhile (\<lambda>x. x \<noteq> c) s"

definition after_char :: "char \<Rightarrow> string \<Rightarrow> string" where
  "after_char c s = drop 1 (dropWhile (\<lambda>x. x \<noteq> c) s)"

section \<open>Sample collaborators and documents\<close>

definition sample_constants :: constants where
  "sample_constants =
     \<lparr>ZILLOW_URL = ''http://www.zillow.com'',
      ZILLOW_HOMES_URL = ''http://www.zillow.com/homes/'',
      HOME_VALUE = ''home-value-wrapper'',
      PROP_SUMMARY_CLASS = ''addr_bbs'',
      DESCRIPTION = ''notranslate'',
      FACT_GROUPING = ''zsg-list_square'',
      HOME_TYPES = [''Single Family'', ''Condo'', ''Townhouse'']\<rparr>"

text \<open>A stand-in for \<^verbatim>\<open>urljoin\<close> that is right for a base without a path, and the identity
  for \<^verbatim>\<open>unquote\<close>, right for a text without percent signs.\<close>

definition sample_urllib :: urllib where
  "sample_urllib = \<lparr>urljoin = (\<lambda>base rel. base @ ''/'' @ rel), unquote = (\<lambda>s. s)\<rparr>"

definition sample_listing_url :: string where
  "sample_listing_url = ''http://www.zillow.com/homes/1_zpid/''"

text \<open>The sample listing page and variants of it with regions left out.\<close>

definition summary_div :: node where
  "summary_div =
     Tag ''div'' [(''class'', ''addr_bbs'')]
       [NavigableString ''3 beds 2 baths 1,200 sqft Oakland, CA 94110'']"

definition description_div :: node where
  "description_div = Tag ''div'' [(''class'', ''notranslate'')] [NavigableString ''A sunny home.'']"

definition value_wrapper_div :: node where
  "value_wrapper_div =
     Tag ''div'' [(''id'', ''home-value-wrapper'')]
       [Tag ''div'' [(''class'', ''home-summary-row'')] [NavigableString ''For Sale'']]"

definition facts_ul :: node where
  "facts_ul =
     Tag ''ul'' [(''class'', ''zsg-list_square'')]
       [Tag ''li'' [] [NavigableString ''Price: 5''], Tag ''li'' [] [NavigableString ''Built in 1925'']]"

definition marker_div :: node where
  "marker_div = Tag ''div'' [(''class'', ''homeMarkerData'')] [Comment ''[1,2,40123456,-74654321]'']"

definition coordinates_elem :: node where
  "coordinates_elem =
     Tag ''span'' [(''id'', ''hdp-map-coordinates''), (''data-latitude'', ''40.1''),
                   (''data-longitude'', ''-74.6'')] []"

definition descriptor :: "string \<Rightarrow> string \<Rightarrow> string" where
  "descriptor params label =
     ''/AjaxRender.htm?encparams='' @ params @ ''&rwebid=1&rhost=2'' @ [dq] @ '',customEvent:''
     @ [dq] @ ''CollapsibleModule:expandSection'' @ [dq] @ '',jsModule:'' @ [dq] @ label"

definition ajax_address :: "string \<Rightarrow> string" where
  "ajax_address params =
     ''http://www.zillow.com/AjaxRender.htm?encparams='' @ params @ ''&rwebid=1&rhost=2''"

definition descriptor_div :: "string \<Rightarrow> string \<Rightarrow> node" where
  "descriptor_div price_params tax_params =
     Tag ''div'' [(''class'', ''hdp-modules'')]
       [NavigableString (descriptor price_params ''z-hdp-price-history'' @ '' ''
                         @ descriptor tax_params ''z-expando-table'')]"

definition listing :: "node list \<Rightarrow> node" where
  "listing parts = Tag ''[document]'' [] parts"

definition full_listing :: node where
  "full_listing =
     listing [summary_div, facts_ul, value_wrapper_div, description_div, marker_div,
              coordinates_elem, descriptor_div ''P'' ''N'']"

definition price_table :: node where
  "price_table =
     listing [Tag ''table'' []
       [Tag ''tbody'' []
         [Tag ''tr'' []
           [Tag ''td'' [] [NavigableString ''01/02/15''], Tag ''td'' [] [NavigableString ''Sold''],
            Tag ''td'' [] [Tag ''span'' [] [NavigableString ''$500,000'']]]]]]"

definition tax_cells :: "node list \<Rightarrow> node" where
  "tax_cells tax =
     Tag ''tr'' []
       [Tag ''td'' [] [NavigableString ''2014''], Tag ''td'' [] tax,
        Tag ''td'' [] [NavigableString ''+1.0%''], Tag ''td'' [] [NavigableString ''$400,000'']]"

text \<open>The sample parser knows the pages by name; any other text becomes a document without
  tags. The sample client serves the pages for the identifiers 1 to 7 and the fragments for
  the parameters \<^verbatim>\<open>P\<close> (a price table) and \<^verbatim>\<open>N\<close> (no table).\<close>

definition sample_parser :: "string \<Rightarrow> node" where
  "sample_parser html =
     (if html = ''full'' then full_listing
      else if html = ''no wrapper'' then listing [summary_div, description_div]
      else if html = ''summary only'' then listing [summary_div]
      else if html = ''no summary'' then listing [description_div, value_wrapper_div]
      else if html = ''no description'' then listing [summary_div, value_wrapper_div]
      else if html = ''no price table'' then
        listing [summary_div, value_wrapper_div, description_div, coordinates_elem,
                 descriptor_div ''N'' ''N'']
      else if html = ''no descriptors'' then
        listing [summary_div, value_wrapper_div, description_div, coordinates_elem]
      else if html = ''price table'' then price_table
      else listing [NavigableString html])"

definition envelope :: "string \<Rightarrow> string" where
  "envelope payload = '' { '' @ [dq] @ ''html'' @ [dq] @ '': '' @ [dq] @ payload @ [dq] @ '' }''"

definition page :: "string \<Rightarrow> string \<Rightarrow> exn + response" where
  "page a body = Inr \<lparr>status_code = 200, final_url = a, content = body\<rparr>"

definition sample_address :: "int \<Rightarrow> string" where
  "sample_address z = ''http://www.zillow.com/homes/'' @ str_int z @ ''_zpid/(index)/''"

definition sample_get :: "string \<Rightarrow> int \<Rightarrow> exn + response" where
  "sample_get a timeout =
     (if a = sample_address 1 then page a ''full''
      else if a = sample_address 2 then page a ''no wrapper''
      else if a = sample_address 3 then page a ''summary only''
      else if a = sample_address 4 then page a ''no summary''
      else if a = sample_address 5 then page a ''no description''
      else if a = sample_address 6 then page a ''no price table''
      else if a = sample_address 7 then page a ''no descriptors''
      else if a = ajax_address ''P'' then page a (envelope ''price table'')
      else if a = ajax_address ''N'' then page a (envelope ''nothing'')
      else Inr \<lparr>status_code = 404, final_url = a, content = []\<rparr>)"

definition sample_env :: env where
  "sample_env =
     \<lparr>constants_of = sample_constants, urllib_of = sample_urllib, BeautifulSoup = sample_parser,
      request_get = sample_get, datetime_now = 63500000000000000\<rparr>"

definition world0 :: world where
  "world0 = \<lparr>requested = [], logged = []\<rparr>"

text \<open>A page whose marker region holds no comment, and a tax row whose tax cell is empty.\<close>

definition marker_without_comment :: node where
  "marker_without_comment =
     listing [Tag ''div'' [(''class'', ''homeMarkerData'')] [NavigableString ''no coordinates''],
              coordinates_elem]"

section \<open>Basic facts\<close>

lemma bind_Inr [simp]: "bind (Inr x) f = f x"
  by (simp add: bind_def)

lemma bind_Inl [simp]: "bind (Inl e) f = Inl e"
  by (simp add: bind_def)

lemma bind_eq_Inr: "bind m f = Inr y \<longleftrightarrow> (\<exists>x. m = Inr x \<and> f x = Inr y)"
  by (cases m) simp_all

lemma py_split_length: "length (py_split c s) = Suc (length (filter (\<lambda>x. x = c) s))"
proof (induction s)
  case Nil
  show ?case by simp
next
  case (Cons a s)
  then show ?case by (cases "py_split c s") auto
qed

lemma py_split_single: "length (py_split c s) = Suc 0 \<longleftrightarrow> c \<notin> set s"
proof -
  have "length (filter (\<lambda>x. x = c) s) = 0 \<longleftrightarrow> c \<notin> set s"
    by (induction s) auto
  then show ?thesis by (simp add: py_split_length)
qed

section \<open>Input validation\<close>

text \<open>
  Claim C3, as the code has it. An address counts as given when it is a non-empty text and
  an identifier when it is a non-zero number, since the validator tests truth values.
  Both given: \<^verbatim>\<open>ValueError\<close>. Neither given: \<^verbatim>\<open>ValueError\<close>. A given address without
  \<^verbatim>\<open>homes\<close> in it: \<^verbatim>\<open>ValueError\<close>. Only an identifier given: the address that \<^verbatim>\<open>urljoin\<close>
  makes from the base address and the template with the identifier put in. A failed
  validation makes \<^verbatim>\<open>scrape_url\<close> raise with nothing requested and nothing logged.
\<close>

theorem validate_scraper_input_contract:
  "(u \<noteq> [] \<and> z \<noteq> 0 \<longrightarrow> validate_scraper_input lib k (Some u) (Some z) = Inl ValueError)
   \<and> (\<not> truthy_str url \<and> \<not> truthy_int zpid \<longrightarrow> validate_scraper_input lib k url zpid = Inl ValueError)
   \<and> (u \<noteq> [] \<and> \<not> py_in ''homes'' u \<longrightarrow> validate_scraper_input lib k (Some u) zpid = Inl ValueError)
   \<and> (z \<noteq> 0 \<and> \<not> truthy_str url \<longrightarrow>
        validate_scraper_input lib k url (Some z)
          = Inr (urljoin lib (ZILLOW_URL k) (''homes/'' @ str_int z @ ''_zpid/(index)/'')))
   \<and> (validate_scraper_input (urllib_of ev) (constants_of ev) url zpid = Inl e \<longrightarrow>
        scrape_url ev url zpid request_timeout history w = (Inl e, w))"
  by (auto simp: validate_scraper_input_def truthy_str_def truthy_int_def scrape_url_def
        zpid_path_def format_zpid_def split: option.splits)

theorem validate_scraper_input_contract_witness:
  "validate_scraper_input sample_urllib sample_constants (Some sample_listing_url) (Some 5) = Inl ValueError
   \<and> validate_scraper_input sample_urllib sample_constants None None = Inl ValueError
   \<and> validate_scraper_input sample_urllib sample_constants (Some ''http://www.zillow.com/1_zpid/'') None
       = Inl ValueError
   \<and> validate_scraper_input sample_urllib sample_constants None (Some 5)
       = Inr ''http://www.zillow.com/homes/5_zpid/(index)/''
   \<and> scrape_url sample_env None None 10 True world0 = (Inl ValueError, world0)"
proof -
  note c = validate_scraper_input_contract
    [of sample_listing_url 5 sample_urllib sample_constants None None sample_env ValueError 10 True world0]
  note d = validate_scraper_input_contract
    [of "''http://www.zillow.com/1_zpid/''" 5 sample_urllib sample_constants None None sample_env
        ValueError 10 True world0]
  have 1: "validate_scraper_input sample_urllib sample_constants (Some sample_listing_url) (Some 5)
             = Inl ValueError"
    using c by (simp add: sample_listing_url_def)
  have 2: "validate_scraper_input sample_urllib sample_constants None None = Inl ValueError"
    using c by (simp add: truthy_str_def truthy_int_def)
  have 3: "validate_scraper_input sample_urllib sample_constants (Some ''http://www.zillow.com/1_zpid/'') None
             = Inl ValueError"
    using d by simp
  have "str_int 5 = ''5''" by code_simp
  then have 4: "validate_scraper_input sample_urllib sample_constants None (Some 5)
             = Inr ''http://www.zillow.com/homes/5_zpid/(index)/''"
    using c by (simp add: truthy_str_def sample_urllib_def sample_constants_def)
  have 5: "scrape_url sample_env None None 10 True world0 = (Inl ValueError, world0)"
    using c 2 by (simp add: sample_env_def)
  from 1 2 3 4 5 show ?thesis by simp
qed

theorem validate_zero_identifier_counterexample:
  "validate_scraper_input sample_urllib sample_constants None (Some 0) = Inl ValueError
   \<and> validate_scraper_input sample_urllib sample_constants (Some sample_listing_url) (Some 0)
       = Inr sample_listing_url"
  by (simp add: validate_scraper_input_def truthy_str_def truthy_int_def sample_listing_url_def)

section \<open>Geolocation: the primary path\<close>

lemma index_last2_append: "index_last2 (pre @ [a, b]) = Inr a"
  by (simp add: index_last2_def)

lemma index_last_append: "index_last (pre @ [a, b]) = Inr b"
  by (simp add: index_last_def)

lemma latitude_token:
  "bind (decimal_of_string ''40123456'') div_1e6 = Inr (Finite False 40123456 (- 6))"
  by code_simp

lemma longitude_token:
  "bind (decimal_of_string (filter (\<lambda>a. a \<noteq> CHR 0x5C) ''-74654321'')) div_1e6
     = Inr (Finite True 74654321 (- 6))"
  by code_simp

lemma coords_of_tokens:
  "coords_of_comment (pre @ [''40123456'', ''-74654321''])
     = (PDecimal (Finite False 40123456 (- 6)), PDecimal (Finite True 74654321 (- 6)))"
  unfolding coords_of_comment_def index_last2_append index_last_append bind_Inr
  by (simp only: latitude_token longitude_token sum.case)

text \<open>
  Claim C7. When the comment of the marker region splits into elements of which the
  second-to-last is \<^verbatim>\<open>40123456\<close> and the last is \<^verbatim>\<open>-74654321\<close>, the latitude is the decimal
  with coefficient 40123456 and exponent -6 and the longitude the negative decimal with
  coefficient 74654321 and exponent -6: exactly 40.123456 and -74.654321. The quotient by one
  million has eight digits, so the rounding to 28 digits changes nothing. Both are true
  values, so the data attributes are not read.
\<close>

theorem geolocation_decimal_exact:
  "coords_of_comment (pre @ [''40123456'', ''-74654321''])
     = (PDecimal (Finite False 40123456 (- 6)), PDecimal (Finite True 74654321 (- 6)))
   \<and> decimal_value (Finite False 40123456 (- 6)) = Some (40123456 / 1000000)
   \<and> decimal_value (Finite True 74654321 (- 6)) = Some (- 74654321 / 1000000)
   \<and> decimal_value (Finite False 40123456 (- 6)) = Some 40.123456
   \<and> decimal_value (Finite True 74654321 (- 6)) = Some (- 74.654321)
   \<and> (find_marker soup = Some d \<and> find_comment d = Some c
        \<and> parse_comment c = pre @ [''40123456'', ''-74654321''] \<longrightarrow>
       get_location_data lib soup
         = Inr (PDict [(''latitude'', PDecimal (Finite False 40123456 (- 6))),
                       (''longitude'', PDecimal (Finite True 74654321 (- 6))),
                       (''address'', address_of lib (find_coordinates_elem soup))]))"
proof -
  have v: "decimal_value (Finite False 40123456 (- 6)) = Some (40123456 / 1000000)"
    "decimal_value (Finite True 74654321 (- 6)) = Some (- 74654321 / 1000000)"
    "decimal_value (Finite False 40123456 (- 6)) = Some 40.123456"
    "decimal_value (Finite True 74654321 (- 6)) = Some (- 74.654321)"
    by (simp_all add: decimal_value_def)
  have g: "get_location_data lib soup
         = Inr (PDict [(''latitude'', PDecimal (Finite False 40123456 (- 6))),
                       (''longitude'', PDecimal (Finite True 74654321 (- 6))),
                       (''address'', address_of lib (find_coordinates_elem soup))])"
    if "find_marker soup = Some d" "find_comment d = Some c"
       "parse_comment c = pre @ [''40123456'', ''-74654321'']"
    using that by (simp add: get_location_data_def coords_of_tokens)
  from v g coords_of_tokens show ?thesis by blast
qed

theorem geolocation_decimal_exact_witness:
  "get_location_data sample_urllib full_listing
     = Inr (PDict [(''latitude'', PDecimal (Finite False 40123456 (- 6))),
                   (''longitude'', PDecimal (Finite True 74654321 (- 6))),
                   (''address'', address_of sample_urllib (find_coordinates_elem full_listing))])"
proof -
  have 1: "find_marker full_listing = Some marker_div" by code_simp
  have 2: "find_comment marker_div = Some (CHR 0x5B # ''1,2,40123456,-74654321]'')" by code_simp
  have 3: "parse_comment (CHR 0x5B # ''1,2,40123456,-74654321]'') = [''1'', ''2''] @ [''40123456'', ''-74654321'']"
    by code_simp
  from geolocation_decimal_exact [of "[''1'', ''2'']" full_listing marker_div
         "CHR 0x5B # ''1,2,40123456,-74654321]''" sample_urllib] 1 2 3
  show ?thesis by blast
qed

text \<open>What the code does when the marker region is there and holds no comment at all: the
  lookup of the comment and the splitting stand before the \<^verbatim>\<open>try\<close>, so the attribute access
  on \<^verbatim>\<open>None\<close> is not caught.\<close>

lemma marker_without_comment_raises:
  "find_marker soup = Some d \<Longrightarrow> find_comment d = None \<Longrightarrow>
   get_location_data lib soup = Inl AttributeError"
  by (simp add: get_location_data_def)

text \<open>
  Claim C8 says that an error on the primary path makes both coordinates \<^verbatim>\<open>None\<close> and never
  propagates. On the sample page whose marker region holds a text but no comment, and whose
  fallback element has both data attributes, the extractor raises \<^verbatim>\<open>AttributeError\<close>.
\<close>

theorem geolocation_comment_missing:
  "get_location_data sample_urllib marker_without_comment = Inl AttributeError"
  by code_simp

section \<open>Tax rows\<close>

text \<open>
  Claim C9, as the code has it. For a row whose cells are \<open>cols\<close>, at least four of them,
  and whose cell 1 has a first child \<open>t\<close>, the extracted row is the text of cell 0, the
  node \<open>t\<close> and the text of cell 3. Two rows that differ only in cell 2 and in the cells
  after cell 3 give the same result, also when that result is an exception.
\<close>

theorem tax_row_columns:
  "(find_all row (named ''td'') = cols \<and> 4 \<le> length cols \<and> contents (cols ! 1) = t # ts \<longrightarrow>
      tax_row row = Inr (PList [PStr (get_text (cols ! 0)), PNode t, PStr (get_text (cols ! 3))]))
   \<and> (find_all row (named ''td'') = c0 # c1 # c2 # c3 # rest
        \<and> find_all row' (named ''td'') = c0 # c1 # c2' # c3 # rest' \<longrightarrow>
      tax_row row = tax_row row')"
  by (auto simp: tax_row_def index_at_def Let_def)

theorem tax_row_columns_witness:
  "tax_row (tax_cells [NavigableString ''$3,000'', Tag ''span'' [] [NavigableString ''+2%'']])
     = Inr (PList [PStr ''2014'', PNode (NavigableString ''$3,000''), PStr ''$400,000''])
   \<and> tax_row (tax_cells [NavigableString ''$3,000''])
       = tax_row (Tag ''tr'' [] [Tag ''td'' [] [NavigableString ''2014''],
                                  Tag ''td'' [] [NavigableString ''$3,000''],
                                  Tag ''td'' [] [NavigableString ''-5.5%''],
                                  Tag ''td'' [] [NavigableString ''$400,000'']])"
proof -
  let ?tax = "[NavigableString ''$3,000'', Tag ''span'' [] [NavigableString ''+2%'']]"
  let ?cols = "[Tag ''td'' [] [NavigableString ''2014''], Tag ''td'' [] ?tax,
                Tag ''td'' [] [NavigableString ''+1.0%''], Tag ''td'' [] [NavigableString ''$400,000'']]"
  have 1: "find_all (tax_cells ?tax) (named ''td'') = ?cols"
    by code_simp
  have 2: "get_text (?cols ! 0) = ''2014''" "get_text (?cols ! 3) = ''$400,000''"
    by code_simp+
  have a: "tax_row (tax_cells ?tax)
     = Inr (PList [PStr ''2014'', PNode (NavigableString ''$3,000''), PStr ''$400,000''])"
    using tax_row_columns [of "tax_cells ?tax" ?cols "NavigableString ''$3,000''"
        "[Tag ''span'' [] [NavigableString ''+2%'']]"] 1 2
    by simp
  let ?row' = "Tag ''tr'' [] [Tag ''td'' [] [NavigableString ''2014''],
                                  Tag ''td'' [] [NavigableString ''$3,000''],
                                  Tag ''td'' [] [NavigableString ''-5.5%''],
                                  Tag ''td'' [] [NavigableString ''$400,000'']]"
  have 3: "find_all (tax_cells [NavigableString ''$3,000'']) (named ''td'')
           = Tag ''td'' [] [NavigableString ''2014''] # Tag ''td'' [] [NavigableString ''$3,000'']
             # Tag ''td'' [] [NavigableString ''+1.0%''] # Tag ''td'' [] [NavigableString ''$400,000''] # []"
    by code_simp
  have 4: "find_all ?row' (named ''td'')
           = Tag ''td'' [] [NavigableString ''2014''] # Tag ''td'' [] [NavigableString ''$3,000'']
             # Tag ''td'' [] [NavigableString ''-5.5%''] # Tag ''td'' [] [NavigableString ''$400,000''] # []"
    by code_simp
  have b: "tax_row (tax_cells [NavigableString ''$3,000'']) = tax_row ?row'"
    using tax_row_columns [where row = "tax_cells [NavigableString ''$3,000'']" and row' = ?row'] 3 4
    by blast
  from a b show ?thesis by simp
qed

theorem tax_row_empty_cell_counterexample:
  "length (find_all (tax_cells []) (named ''td'')) = 4 \<and> tax_row (tax_cells []) = Inl IndexError"
  by code_simp

section \<open>Facts about the extractors\<close>

lemma raised_Some: "raised m = Some e \<longleftrightarrow> m = Inl e"
  by (cases m) (simp_all add: raised_def)

lemma succeeds_Inr: "succeeds m \<longleftrightarrow> (\<exists>x. m = Inr x)"
  by (cases m) (simp_all add: succeeds_def raised_def)

lemma findall_first_raises: "findall_first r s = Inl e \<Longrightarrow> e = IndexError"
  by (auto simp: findall_first_def split: option.splits)

lemma parse_property_stores:
  "\<exists>v. parse_property t r p results = Inr (results(p \<mapsto> v))"
proof (cases "findall_first r t")
  case (Inl e)
  then have "e = IndexError" by (rule findall_first_raises)
  with Inl have "parse_property t r p results = Inr (results(p \<mapsto> PNone))"
    by (simp add: parse_property_def)
  then show ?thesis by blast
next
  case (Inr v)
  then have "parse_property t r p results = Inr (results(p \<mapsto> PStr v))"
    by (simp add: parse_property_def)
  then show ?thesis by blast
qed

lemma get_property_summary_found:
  assumes "find_prop_summary k soup = Some d"
  shows "\<exists>r. get_property_summary k soup = Inr r \<and> dom r = set summary_keys"
proof -
  let ?t = "get_text d"
  obtain v1 where 1: "parse_property ?t re_bedrooms ''bedrooms'' Map.empty = Inr [''bedrooms'' \<mapsto> v1]"
    using parse_property_stores by blast
  obtain v2 where 2: "parse_property ?t re_bathrooms ''bathrooms'' [''bedrooms'' \<mapsto> v1]
      = Inr ([''bedrooms'' \<mapsto> v1](''bathrooms'' \<mapsto> v2))"
    using parse_property_stores by blast
  obtain v3 where 3: "parse_property ?t re_sqft ''sqft'' ([''bedrooms'' \<mapsto> v1](''bathrooms'' \<mapsto> v2))
      = Inr ([''bedrooms'' \<mapsto> v1](''bathrooms'' \<mapsto> v2, ''sqft'' \<mapsto> v3))"
    using parse_property_stores by blast
  obtain v4 where 4: "parse_property ?t re_city ''city''
        ([''bedrooms'' \<mapsto> v1](''bathrooms'' \<mapsto> v2, ''sqft'' \<mapsto> v3))
      = Inr ([''bedrooms'' \<mapsto> v1](''bathrooms'' \<mapsto> v2, ''sqft'' \<mapsto> v3, ''city'' \<mapsto> v4))"
    using parse_property_stores by blast
  obtain v5 where 5: "parse_property ?t re_state ''state''
        ([''bedrooms'' \<mapsto> v1](''bathrooms'' \<mapsto> v2, ''sqft'' \<mapsto> v3, ''city'' \<mapsto> v4))
      = Inr ([''bedrooms'' \<mapsto> v1](''bathrooms'' \<mapsto> v2, ''sqft'' \<mapsto> v3, ''city'' \<mapsto> v4, ''state'' \<mapsto> v5))"
    using parse_property_stores by blast
  obtain v6 where 6: "parse_property ?t re_zipcode ''zipcode''
        ([''bedrooms'' \<mapsto> v1](''bathrooms'' \<mapsto> v2, ''sqft'' \<mapsto> v3, ''city'' \<mapsto> v4, ''state'' \<mapsto> v5))
      = Inr ([''bedrooms'' \<mapsto> v1](''bathrooms'' \<mapsto> v2, ''sqft'' \<mapsto> v3, ''city'' \<mapsto> v4, ''state'' \<mapsto> v5,
              ''zipcode'' \<mapsto> v6))"
    using parse_property_stores by blast
  have "get_property_summary k soup
      = Inr ([''bedrooms'' \<mapsto> v1](''bathrooms'' \<mapsto> v2, ''sqft'' \<mapsto> v3, ''city'' \<mapsto> v4, ''state'' \<mapsto> v5,
              ''zipcode'' \<mapsto> v6))"
    using assms by (simp add: get_property_summary_def 1 2 3 4 5 6)
  moreover have "dom ([''bedrooms'' \<mapsto> v1](''bathrooms'' \<mapsto> v2, ''sqft'' \<mapsto> v3, ''city'' \<mapsto> v4, ''state'' \<mapsto> v5,
              ''zipcode'' \<mapsto> v6)) = set summary_keys"
    by (auto simp: summary_keys_def)
  ultimately show ?thesis by blast
qed

lemma get_property_summary_missing:
  "find_prop_summary k soup = None \<Longrightarrow> get_property_summary k soup = Inl NullResultException"
  by (simp add: get_property_summary_def)

lemma get_description_cases:
  "get_description k soup =
     (case find_description k soup of None \<Rightarrow> Inl NullResultException | Some d \<Rightarrow> Inr (get_text d))"
  by (simp add: get_description_def)

lemma extract_record_Inr:
  "extract_record ev soup = Inr r \<longleftrightarrow>
     (\<exists>summary facts sale d loc.
        get_property_summary (constants_of ev) soup = Inr summary
        \<and> parse_facts (constants_of ev) (datetime_now ev) (get_fact_list (constants_of ev) soup) = Inr facts
        \<and> get_sale_info (constants_of ev) soup = Inr sale
        \<and> find_description (constants_of ev) soup = Some d
        \<and> get_location_data (urllib_of ev) soup = Inr loc
        \<and> r = (summary ++ facts ++ sale)
                 (''description'' \<mapsto> PStr (get_text d), ''photos'' \<mapsto> get_photos soup,
                  ''location_data'' \<mapsto> loc))"
  by (auto simp: extract_record_def bind_eq_Inr get_description_cases split: option.splits)

lemma get_raw_html_world:
  "get_raw_html ev u t w = (x, w1) \<Longrightarrow> w1 = w\<lparr>requested := requested w @ [u]\<rparr>"
  by (auto simp: get_raw_html_def Let_def split: sum.splits if_splits)

lemma scrape_url_unfold:
  assumes "validate_scraper_input (urllib_of ev) (constants_of ev) url zpid = Inr u"
    and "get_raw_html ev u t w = (Inr html, w1)"
  shows "scrape_url ev url zpid t h w =
     (case extract_record ev (BeautifulSoup ev html) of
        Inl e \<Rightarrow> (Inl e, w1)
      | Inr results \<Rightarrow>
          if h then populate_price_and_tax_histories ev (BeautifulSoup ev html) results t w1
          else (Inr results, w1))"
  using assms by (simp add: scrape_url_def Let_def)

lemma scrape_url_Inr:
  assumes "scrape_url ev url zpid t h w = (Inr r, w')"
  shows "\<exists>u html w1 r0.
     validate_scraper_input (urllib_of ev) (constants_of ev) url zpid = Inr u
     \<and> get_raw_html ev u t w = (Inr html, w1)
     \<and> extract_record ev (BeautifulSoup ev html) = Inr r0
     \<and> (if h then populate_price_and_tax_histories ev (BeautifulSoup ev html) r0 t w1 = (Inr r, w')
         else r = r0 \<and> w' = w1)"
  using assms
  by (auto simp: scrape_url_def Let_def split: sum.splits prod.splits if_splits)

lemma populate_one_Inr:
  assumes "populate_one fetch label key msg soup results t w = (Inr r, w')"
  shows "r = results \<or> (\<exists>rows. r = results(key \<mapsto> PList rows))"
  using assms
  by (auto simp: populate_one_def split: sum.splits prod.splits if_splits)

lemma populate_one_not_null:
  "fst (populate_one fetch label key msg soup results t w) \<noteq> Inl NullResultException"
  by (auto simp: populate_one_def split: sum.splits prod.splits if_splits)

lemma populate_frame:
  assumes "populate_price_and_tax_histories ev soup results t w = (Inr r, w')"
    and "key \<noteq> ''price_history''" and "key \<noteq> ''tax_history''"
  shows "r key = results key"
proof -
  from assms(1) obtain r1 w1 where
    1: "populate_one (get_price_history ev) ''z-hdp-price-history'' ''price_history'' price_message
          soup results t w = (Inr r1, w1)"
    and 2: "populate_one (get_tax_history ev) ''z-expando-table'' ''tax_history'' tax_message
          soup r1 t w1 = (Inr r, w')"
    by (auto simp: populate_price_and_tax_histories_def split: sum.splits prod.splits)
  from populate_one_Inr [OF 1] assms(2) have "r1 key = results key" by auto
  moreover from populate_one_Inr [OF 2] assms(3) have "r key = r1 key" by auto
  ultimately show ?thesis by simp
qed

lemma populate_not_null:
  "fst (populate_price_and_tax_histories ev soup results t w) \<noteq> Inl NullResultException"
proof -
  have a: "fst (populate_one (get_price_history ev) ''z-hdp-price-history'' ''price_history'' price_message
          soup results t w) \<noteq> Inl NullResultException"
    by (rule populate_one_not_null)
  show ?thesis
    using a populate_one_not_null [of "get_tax_history ev" "''z-expando-table''" "''tax_history''" tax_message soup]
    by (auto simp: populate_price_and_tax_histories_def split: sum.splits prod.splits)
qed

section \<open>Fact classification\<close>

lemma classify_chain:
  "classify k text =
     (if text \<in> set (HOME_TYPES k) then HomeType
      else if py_in ''Built in'' text then BuiltIn
      else if py_in ''days on Zillow'' text then DaysOnZillow
      else if CHR '':'' \<notin> set text then ExtrasAppend
      else if py_in ''Posted'' text then Posted
      else KeyValue)"
  by (simp add: classify_def rule_order_def)

lemma fires_classify: "fires k text r \<longleftrightarrow> r = classify k text"
  by (cases r) (auto simp: fires_def rule_order_def classify_chain)

lemma py_split_pieces:
  "py_split c s =
     before_char c s # (if c \<in> set s then py_split c (after_char c s) else [])"
proof (induction s)
  case Nil
  show ?case by (simp add: before_char_def)
next
  case (Cons a s)
  then show ?case by (auto simp: before_char_def after_char_def)
qed

lemma split_piece0: "index_at (py_split c s) 0 = Inr (before_char c s)"
  by (subst py_split_pieces) (simp add: index_at_def)

lemma split_piece1:
  "c \<in> set s \<Longrightarrow> index_at (py_split c s) 1 = Inr (before_char c (after_char c s))"
proof -
  assume "c \<in> set s"
  then have "py_split c s = before_char c s # py_split c (after_char c s)"
    by (subst py_split_pieces) simp
  moreover have "py_split c (after_char c s) \<noteq> []"
    by (subst py_split_pieces) simp
  moreover have "hd (py_split c (after_char c s)) = before_char c (after_char c s)"
    by (subst py_split_pieces) simp
  ultimately show ?thesis
    by (cases "py_split c (after_char c s)") (simp_all add: index_at_def)
qed

lemma hash_match:
  assumes "rmatch re_hash (c # t) Map.empty = (s', cs) # rest"
  shows "\<exists>d. t = d # s' \<and> c \<noteq> CHR '':'' \<and> d \<noteq> CHR '':''"
proof (cases t)
  case Nil
  with assms show ?thesis by (simp add: re_hash_def split: if_splits)
next
  case (Cons d u)
  with assms show ?thesis by (auto simp: re_hash_def split: if_splits)
qed

lemma sub_hash_colons:
  "filter (\<lambda>x. x = CHR '':'') (sub_go re_hash [] n s) = filter (\<lambda>x. x = CHR '':'') (drop n s)"
proof (induction s arbitrary: n)
  case Nil
  show ?case by simp
next
  case (Cons c t)
  show ?case
  proof (cases n)
    case (Suc m)
    then show ?thesis using Cons.IH [of m] by simp
  next
    case 0
    show ?thesis
    proof (cases "rmatch re_hash (c # t) Map.empty")
      case Nil
      with 0 show ?thesis using Cons.IH [of 0] by simp
    next
      case (Cons x rest)
      obtain s' cs where x: "x = (s', cs)" by (cases x)
      from hash_match [of c t s' cs rest] Cons x obtain d where
        d: "t = d # s'" "c \<noteq> CHR '':''" "d \<noteq> CHR '':''"
        by auto
      from 0 Cons x d show ?thesis using Cons.IH [of 1] by simp
    qed
  qed
qed

lemma re_sub_hash_colon:
  "CHR '':'' \<in> set (re_sub re_hash [] text) \<longleftrightarrow> CHR '':'' \<in> set text"
proof -
  have "filter (\<lambda>x. x = CHR '':'') (re_sub re_hash [] text) = filter (\<lambda>x. x = CHR '':'') text"
    using sub_hash_colons [of 0 "text"] by (simp add: re_sub_def)
  then have "set (filter (\<lambda>x. x = CHR '':'') (re_sub re_hash [] text))
               = set (filter (\<lambda>x. x = CHR '':'') text)"
    by simp
  then show ?thesis by auto
qed

lemma findall_first_cases:
  "bind (findall_first r s) f = (case findall_first r s of Inl e \<Rightarrow> Inl IndexError | Inr y \<Rightarrow> f y)"
  by (cases "findall_first r s") (auto dest: findall_first_raises)

lemma foldM_append:
  "foldM f s (xs @ [x]) = bind (foldM f s xs) (\<lambda>s'. f s' x)"
  by (induction xs arbitrary: s) (auto split: sum.splits)

lemma built_in_1925: "findall_first re_built_in ''Built in 1925'' = Inr ''1925''"
  by code_simp

lemma days_3: "findall_first re_days ''3 days on Zillow'' = Inr ''3''"
  by code_simp

lemma parse_fact_home_type:
  "fires k text HomeType \<Longrightarrow> parse_fact k now parsed text = Inr (parsed(''home_type'' \<mapsto> PStr text))"
  by (simp add: fires_classify classify_chain parse_fact_def split: if_splits)

lemma parse_fact_built_in:
  "fires k text BuiltIn \<Longrightarrow>
   parse_fact k now parsed text =
     (case findall_first re_built_in text of
        Inl e \<Rightarrow> Inl IndexError
      | Inr y \<Rightarrow> Inr (parsed(''year'' \<mapsto> PStr y)))"
  by (simp add: fires_classify classify_chain parse_fact_def findall_first_cases split: if_splits)

lemma parse_fact_days:
  "fires k text DaysOnZillow \<Longrightarrow>
   parse_fact k now parsed text =
     (case findall_first re_days text of
        Inl e \<Rightarrow> Inl IndexError
      | Inr d \<Rightarrow> Inr (parsed(''days_on_zillow'' \<mapsto> PStr d)))"
  by (simp add: fires_classify classify_chain parse_fact_def findall_first_cases split: if_splits)

lemma parse_fact_extras:
  "fires k text ExtrasAppend \<Longrightarrow>
   parse_fact k now parsed text =
     (case parsed ''extras'' of
        None \<Rightarrow> Inr (parsed(''extras'' \<mapsto> PList [PStr text]))
      | Some (PList xs) \<Rightarrow> Inr (parsed(''extras'' \<mapsto> PList (xs @ [PStr text])))
      | Some other \<Rightarrow> Inl AttributeError)"
  by (simp add: fires_classify classify_chain parse_fact_def py_split_single split: if_splits)

lemma parse_fact_posted:
  assumes "fires k text Posted"
  shows "parse_fact k now parsed text =
     bind (py_int (before_char CHR '' ''
                     (py_strip (before_char CHR '':'' (after_char CHR '':'' (re_sub re_hash [] text))))))
       (\<lambda>n. bind (timedelta_days n)
       (\<lambda>td. bind (datetime_sub now td)
       (\<lambda>posted_date. Inr (parsed(''posted'' \<mapsto> PDateTime posted_date)))))"
proof -
  from assms have g: "text \<notin> set (HOME_TYPES k)" "\<not> py_in ''Built in'' text"
    "\<not> py_in ''days on Zillow'' text" "CHR '':'' \<in> set text" "py_in ''Posted'' text"
    by (simp_all add: fires_classify classify_chain split: if_splits)
  from g(4) have "CHR '':'' \<in> set (re_sub re_hash [] text)"
    by (simp add: re_sub_hash_colon)
  from split_piece1 [OF this] g show ?thesis
    by (simp add: parse_fact_def py_split_single split_piece0)
qed

lemma parse_fact_key_value:
  assumes "fires k text KeyValue"
  shows "parse_fact k now parsed text =
     Inr (parsed(py_lower (py_replace '' '' ''_'' (py_strip (before_char CHR '':'' (re_sub re_hash [] text))))
                 \<mapsto> PStr (py_strip (before_char CHR '':''
                                      (after_char CHR '':'' (re_sub re_hash [] text))))))"
proof -
  from assms have g: "text \<notin> set (HOME_TYPES k)" "\<not> py_in ''Built in'' text"
    "\<not> py_in ''days on Zillow'' text" "CHR '':'' \<in> set text" "\<not> py_in ''Posted'' text"
    by (simp_all add: fires_classify classify_chain split: if_splits)
  from g(4) have "CHR '':'' \<in> set (re_sub re_hash [] text)"
    by (simp add: re_sub_hash_colon)
  from split_piece1 [OF this] g show ?thesis
    by (simp add: parse_fact_def py_split_single split_piece0)
qed

text \<open>
  Claim C4, as the code has it. For every fact text exactly one of the six rules fires: the
  first in the priority order whose condition holds. What the loop body does with the text
  is fixed by that rule. The home-type rule stores the text. The rules for \<^verbatim>\<open>Built in\<close> and
  \<^verbatim>\<open>days on Zillow\<close> store the digits their pattern finds and raise \<^verbatim>\<open>IndexError\<close> when it
  finds none. The no-colon rule appends the text to the list of extras (a new list when there
  is none) and raises \<^verbatim>\<open>AttributeError\<close> when \<^verbatim>\<open>extras\<close> holds something else. The
  \<^verbatim>\<open>Posted\<close> rule reads the first word after the first colon as a number of days, raising
  when it is no number or out of range, and stores the time that many days ago. The
  key-value rule never raises: with the hash marks removed, it stores the stripped text
  between the first and the second colon (to the end when there is no second colon), not
  all that follows the first colon, under the normalised text before the first colon. The
  loop handles the facts in order and stops at the first rule that raises. For texts that
  are not home types, \<^verbatim>\<open>Built in 1925\<close> stores the year \<^verbatim>\<open>1925\<close>, \<^verbatim>\<open>3 days on Zillow\<close> the
  count \<^verbatim>\<open>3\<close>, and \<^verbatim>\<open>Has garage\<close> is appended to the extras.
\<close>

theorem fact_classification:
  "(\<exists>!r. fires k text r)
   \<and> (fires k text HomeType \<longrightarrow>
        parse_fact k now parsed text = Inr (parsed(''home_type'' \<mapsto> PStr text)))
   \<and> (fires k text BuiltIn \<longrightarrow>
        parse_fact k now parsed text =
          (case findall_first re_built_in text of
             Inl e \<Rightarrow> Inl IndexError
           | Inr y \<Rightarrow> Inr (parsed(''year'' \<mapsto> PStr y))))
   \<and> (fires k text DaysOnZillow \<longrightarrow>
        parse_fact k now parsed text =
          (case findall_first re_days text of
             Inl e \<Rightarrow> Inl IndexError
           | Inr d \<Rightarrow> Inr (parsed(''days_on_zillow'' \<mapsto> PStr d))))
   \<and> (fires k text ExtrasAppend \<longrightarrow>
        parse_fact k now parsed text =
          (case parsed ''extras'' of
             None \<Rightarrow> Inr (parsed(''extras'' \<mapsto> PList [PStr text]))
           | Some (PList xs) \<Rightarrow> Inr (parsed(''extras'' \<mapsto> PList (xs @ [PStr text])))
           | Some other \<Rightarrow> Inl AttributeError))
   \<and> (fires k text Posted \<longrightarrow>
        parse_fact k now parsed text =
          bind (py_int (before_char CHR '' ''
                  (py_strip (before_char CHR '':'' (after_char CHR '':'' (re_sub re_hash [] text))))))
            (\<lambda>n. bind (timedelta_days n)
            (\<lambda>td. bind (datetime_sub now td)
            (\<lambda>posted_date. Inr (parsed(''posted'' \<mapsto> PDateTime posted_date))))))
   \<and> (fires k text KeyValue \<longrightarrow>
        parse_fact k now parsed text =
          Inr (parsed(py_lower (py_replace '' '' ''_''
                         (py_strip (before_char CHR '':'' (re_sub re_hash [] text))))
                      \<mapsto> PStr (py_strip (before_char CHR '':''
                                           (after_char CHR '':'' (re_sub re_hash [] text)))))))
   \<and> parse_facts k now [] = Inr Map.empty
   \<and> parse_facts k now (facts @ [item])
       = bind (parse_facts k now facts) (\<lambda>parsed. parse_fact k now parsed (get_text item))
   \<and> (''Built in 1925'' \<notin> set (HOME_TYPES k) \<longrightarrow>
        parse_fact k now parsed ''Built in 1925'' = Inr (parsed(''year'' \<mapsto> PStr ''1925'')))
   \<and> (''3 days on Zillow'' \<notin> set (HOME_TYPES k) \<longrightarrow>
        parse_fact k now parsed ''3 days on Zillow'' = Inr (parsed(''days_on_zillow'' \<mapsto> PStr ''3'')))
   \<and> (''Has garage'' \<notin> set (HOME_TYPES k) \<and> parsed ''extras'' = None \<longrightarrow>
        parse_fact k now parsed ''Has garage'' = Inr (parsed(''extras'' \<mapsto> PList [PStr ''Has garage''])))
   \<and> (''Has garage'' \<notin> set (HOME_TYPES k) \<and> parsed ''extras'' = Some (PList ys) \<longrightarrow>
        parse_fact k now parsed ''Has garage''
          = Inr (parsed(''extras'' \<mapsto> PList (ys @ [PStr ''Has garage'']))))"
proof -
  have a: "\<exists>!r. fires k text r" by (simp add: fires_classify)
  have l0: "parse_facts k now [] = Inr Map.empty"
    by (simp add: parse_facts_def)
  have l1: "parse_facts k now (facts @ [item])
       = bind (parse_facts k now facts) (\<lambda>parsed. parse_fact k now parsed (get_text item))"
    by (simp add: parse_facts_def foldM_append)
  have d: "''Built in 1925'' \<notin> set (HOME_TYPES k) \<Longrightarrow>
        parse_fact k now parsed ''Built in 1925'' = Inr (parsed(''year'' \<mapsto> PStr ''1925''))"
    by (simp add: parse_fact_def built_in_1925)
  have e: "''3 days on Zillow'' \<notin> set (HOME_TYPES k) \<Longrightarrow>
        parse_fact k now parsed ''3 days on Zillow'' = Inr (parsed(''days_on_zillow'' \<mapsto> PStr ''3''))"
    by (simp add: parse_fact_def days_3)
  have f: "''Has garage'' \<notin> set (HOME_TYPES k) \<Longrightarrow> parsed ''extras'' = None \<Longrightarrow>
        parse_fact k now parsed ''Has garage'' = Inr (parsed(''extras'' \<mapsto> PList [PStr ''Has garage'']))"
    by (simp add: parse_fact_def)
  have g: "''Has garage'' \<notin> set (HOME_TYPES k) \<Longrightarrow> parsed ''extras'' = Some (PList ys) \<Longrightarrow>
        parse_fact k now parsed ''Has garage''
          = Inr (parsed(''extras'' \<mapsto> PList (ys @ [PStr ''Has garage''])))"
    by (simp add: parse_fact_def)
  show ?thesis
    apply (intro conjI impI)
                apply (rule a)
               apply (erule parse_fact_home_type)
              apply (erule parse_fact_built_in)
             apply (erule parse_fact_days)
            apply (erule parse_fact_extras)
           apply (erule parse_fact_posted)
          apply (erule parse_fact_key_value)
         apply (rule l0)
        apply (rule l1)
       apply (erule d)
      apply (erule e)
     apply (erule conjE, erule (1) f)
    apply (erule conjE, erule (1) g)
    done
qed

theorem fact_classification_witness:
  "fires sample_constants ''Condo'' HomeType
   \<and> parse_fact sample_constants 0 Map.empty ''Condo'' = Inr [''home_type'' \<mapsto> PStr ''Condo'']
   \<and> fires sample_constants ''Built in 1925'' BuiltIn
   \<and> parse_fact sample_constants 0 Map.empty ''Built in 1925'' = Inr [''year'' \<mapsto> PStr ''1925'']
   \<and> fires sample_constants ''3 days on Zillow'' DaysOnZillow
   \<and> parse_fact sample_constants 0 Map.empty ''3 days on Zillow'' = Inr [''days_on_zillow'' \<mapsto> PStr ''3'']
   \<and> fires sample_constants ''Has garage'' ExtrasAppend
   \<and> parse_fact sample_constants 0 [''extras'' \<mapsto> PList [PStr ''Pool'']] ''Has garage''
        = Inr [''extras'' \<mapsto> PList [PStr ''Pool'', PStr ''Has garage'']]
   \<and> fires sample_constants ''Posted: 12 days ago'' Posted
   \<and> parse_fact sample_constants 63500000000000000 Map.empty ''Posted: 12 days ago''
        = Inr [''posted'' \<mapsto> PDateTime 63498963200000000]
   \<and> fires sample_constants ''Lot: 5,000 sqft: big'' KeyValue
   \<and> parse_fact sample_constants 0 Map.empty ''Lot: 5,000 sqft: big'' = Inr [''lot'' \<mapsto> PStr ''5,000 sqft'']
   \<and> parse_facts sample_constants 0
         ([Tag ''li'' [] [NavigableString ''Condo'']] @ [Tag ''li'' [] [NavigableString ''Built in 1925'']])
        = Inr [''home_type'' \<mapsto> PStr ''Condo'', ''year'' \<mapsto> PStr ''1925'']"
proof -
  have h: "''Built in 1925'' \<notin> set (HOME_TYPES sample_constants)"
    "''3 days on Zillow'' \<notin> set (HOME_TYPES sample_constants)"
    "''Has garage'' \<notin> set (HOME_TYPES sample_constants)"
    by (simp_all add: sample_constants_def)
  have f1: "fires sample_constants ''Condo'' HomeType" by code_simp
  have f2: "fires sample_constants ''Built in 1925'' BuiltIn" by code_simp
  have f3: "fires sample_constants ''3 days on Zillow'' DaysOnZillow" by code_simp
  have f4: "fires sample_constants ''Has garage'' ExtrasAppend" by code_simp
  have f5: "fires sample_constants ''Posted: 12 days ago'' Posted" by code_simp
  have f6: "fires sample_constants ''Lot: 5,000 sqft: big'' KeyValue" by code_simp
  have p: "bind (py_int (before_char CHR '' ''
                  (py_strip (before_char CHR '':'' (after_char CHR '':''
                     (re_sub re_hash [] ''Posted: 12 days ago''))))))
            (\<lambda>n. bind (timedelta_days n) (datetime_sub 63500000000000000)) = Inr 63498963200000000"
    by code_simp
  have kv: "py_lower (py_replace '' '' ''_''
               (py_strip (before_char CHR '':'' (re_sub re_hash [] ''Lot: 5,000 sqft: big'')))) = ''lot''"
    "py_strip (before_char CHR '':'' (after_char CHR '':'' (re_sub re_hash [] ''Lot: 5,000 sqft: big'')))
       = ''5,000 sqft''"
    by code_simp+
  have t: "get_text (Tag ''li'' [] [NavigableString ''Condo'']) = ''Condo''"
    "get_text (Tag ''li'' [] [NavigableString ''Built in 1925'']) = ''Built in 1925''"
    by code_simp+
  note c1 = fact_classification [of sample_constants "''Condo''" 0 Map.empty "[]"
      "Tag ''li'' [] [NavigableString ''Condo'']" "[]"]
  note c2 = fact_classification [of sample_constants "''Has garage''" 0
      "[''extras'' \<mapsto> PList [PStr ''Pool'']]" "[]" "Tag ''li'' [] [NavigableString ''Condo'']"
      "[PStr ''Pool'']"]
  note c3 = fact_classification [of sample_constants "''Posted: 12 days ago''" 63500000000000000
      Map.empty "[]" "Tag ''li'' [] [NavigableString ''Condo'']" "[]"]
  note c4 = fact_classification [of sample_constants "''Lot: 5,000 sqft: big''" 0 Map.empty "[]"
      "Tag ''li'' [] [NavigableString ''Condo'']" "[]"]
  note c5 = fact_classification [of sample_constants "''Built in 1925''" 0
      "[''home_type'' \<mapsto> PStr ''Condo'']" "[Tag ''li'' [] [NavigableString ''Condo'']]"
      "Tag ''li'' [] [NavigableString ''Built in 1925'']" "[]"]
  from c1 f1 have 1: "parse_fact sample_constants 0 Map.empty ''Condo'' = Inr [''home_type'' \<mapsto> PStr ''Condo'']"
    by blast
  from c1 h have 2: "parse_fact sample_constants 0 Map.empty ''Built in 1925'' = Inr [''year'' \<mapsto> PStr ''1925'']"
    and 3: "parse_fact sample_constants 0 Map.empty ''3 days on Zillow'' = Inr [''days_on_zillow'' \<mapsto> PStr ''3'']"
    by blast+
  from c2 h have 4: "parse_fact sample_constants 0 [''extras'' \<mapsto> PList [PStr ''Pool'']] ''Has garage''
        = Inr [''extras'' \<mapsto> PList [PStr ''Pool'', PStr ''Has garage'']]"
    by simp
  from c3 f5 have "parse_fact sample_constants 63500000000000000 Map.empty ''Posted: 12 days ago''
     = bind (py_int (before_char CHR '' ''
                  (py_strip (before_char CHR '':'' (after_char CHR '':''
                     (re_sub re_hash [] ''Posted: 12 days ago''))))))
            (\<lambda>n. bind (timedelta_days n)
            (\<lambda>td. bind (datetime_sub 63500000000000000 td)
            (\<lambda>posted_date. Inr [''posted'' \<mapsto> PDateTime posted_date])))"
    by blast
  with p have 5: "parse_fact sample_constants 63500000000000000 Map.empty ''Posted: 12 days ago''
        = Inr [''posted'' \<mapsto> PDateTime 63498963200000000]"
    by (auto simp: bind_eq_Inr)
  from c4 f6 kv have 6: "parse_fact sample_constants 0 Map.empty ''Lot: 5,000 sqft: big''
        = Inr [''lot'' \<mapsto> PStr ''5,000 sqft'']"
    by simp
  from c1 have s0: "parse_facts sample_constants 0 [] = Inr Map.empty" by blast
  from c1 have "parse_facts sample_constants 0 ([] @ [Tag ''li'' [] [NavigableString ''Condo'']])
       = bind (parse_facts sample_constants 0 [])
           (\<lambda>parsed. parse_fact sample_constants 0 parsed (get_text (Tag ''li'' [] [NavigableString ''Condo''])))"
    by blast
  with s0 1 t have s1: "parse_facts sample_constants 0 [Tag ''li'' [] [NavigableString ''Condo'']]
       = Inr [''home_type'' \<mapsto> PStr ''Condo'']"
    by simp
  from c5 h have b: "parse_fact sample_constants 0 [''home_type'' \<mapsto> PStr ''Condo''] ''Built in 1925''
       = Inr [''home_type'' \<mapsto> PStr ''Condo'', ''year'' \<mapsto> PStr ''1925'']"
    by blast
  from c5 have "parse_facts sample_constants 0
         ([Tag ''li'' [] [NavigableString ''Condo'']] @ [Tag ''li'' [] [NavigableString ''Built in 1925'']])
       = bind (parse_facts sample_constants 0 [Tag ''li'' [] [NavigableString ''Condo'']])
           (\<lambda>parsed. parse_fact sample_constants 0 parsed
                        (get_text (Tag ''li'' [] [NavigableString ''Built in 1925''])))"
    by blast
  with s1 b t have 7: "parse_facts sample_constants 0
         ([Tag ''li'' [] [NavigableString ''Condo'']] @ [Tag ''li'' [] [NavigableString ''Built in 1925'']])
        = Inr [''home_type'' \<mapsto> PStr ''Condo'', ''year'' \<mapsto> PStr ''1925'']"
    by simp
  from f1 f2 f3 f4 f5 f6 1 2 3 4 5 6 7 show ?thesis by blast
qed

theorem key_value_second_colon_counterexample:
  "fires sample_constants ''Lot: 5,000 sqft: big'' KeyValue
   \<and> map_sum id (\<lambda>parsed. parsed ''lot'') (parse_fact sample_constants 0 Map.empty ''Lot: 5,000 sqft: big'')
       = Inr (Some (PStr ''5,000 sqft''))
   \<and> py_strip (after_char CHR '':'' ''Lot: 5,000 sqft: big'') = ''5,000 sqft: big''
   \<and> fires sample_constants ''Built in the 1920s'' BuiltIn
   \<and> raised (parse_fact sample_constants 0 Map.empty ''Built in the 1920s'') = Some IndexError
   \<and> raised (parse_facts sample_constants 0
               [Tag ''li'' [] [NavigableString ''Built in the 1920s''],
                Tag ''li'' [] [NavigableString ''Has garage'']]) = Some IndexError"
  by code_simp

section \<open>The two mandatory regions\<close>

lemma extract_record_with_regions:
  assumes "find_prop_summary (constants_of ev) soup = Some ps"
    and "find_description (constants_of ev) soup = Some d"
    and "succeeds (parse_facts (constants_of ev) (datetime_now ev) (get_fact_list (constants_of ev) soup))"
    and "succeeds (get_sale_info (constants_of ev) soup)"
    and "succeeds (get_location_data (urllib_of ev) soup)"
  shows "\<exists>r. extract_record ev soup = Inr r \<and> r ''description'' = Some (PStr (get_text d))
           \<and> set summary_keys \<subseteq> dom r"
proof -
  from get_property_summary_found [OF assms(1)] obtain summary where
    s: "get_property_summary (constants_of ev) soup = Inr summary" "dom summary = set summary_keys"
    by blast
  from assms(3,4,5) obtain facts sale loc where
    f: "parse_facts (constants_of ev) (datetime_now ev) (get_fact_list (constants_of ev) soup) = Inr facts"
    and g: "get_sale_info (constants_of ev) soup = Inr sale"
    and l: "get_location_data (urllib_of ev) soup = Inr loc"
    by (auto simp: succeeds_Inr)
  let ?r = "(summary ++ facts ++ sale)
                 (''description'' \<mapsto> PStr (get_text d), ''photos'' \<mapsto> get_photos soup,
                  ''location_data'' \<mapsto> loc)"
  have "extract_record ev soup = Inr ?r"
    using s(1) f g l assms(2) by (simp add: extract_record_Inr)
  moreover have "?r ''description'' = Some (PStr (get_text d))" by simp
  moreover have "set summary_keys \<subseteq> dom ?r"
    using s(2) by auto
  ultimately show ?thesis by blast
qed

lemma populate_keeps:
  assumes "populate_price_and_tax_histories ev soup r0 t w = (Inr r, w')"
    and "r0 ''description'' = Some v" and "set summary_keys \<subseteq> dom r0"
  shows "r ''description'' = Some v \<and> set summary_keys \<subseteq> dom r"
proof -
  have "r ''description'' = r0 ''description''"
    using populate_frame [OF assms(1)] by simp
  moreover have "k \<in> dom r" if "k \<in> set summary_keys" for k
  proof -
    from that have "k \<noteq> ''price_history''" "k \<noteq> ''tax_history''"
      by (auto simp: summary_keys_def)
    then have "r k = r0 k" using populate_frame [OF assms(1)] by simp
    moreover from that assms(3) have "k \<in> dom r0" by blast
    ultimately show ?thesis by (simp add: dom_def)
  qed
  ultimately show ?thesis using assms(2) by auto
qed

text \<open>
  Claim C1, as the code has it. The page has been fetched and parsed, it has the summary
  region and the description region, and the fact, sale-info and geolocation extractors raise
  nothing on it (the sale-info extractor raises when the pricing region is missing, for
  one). Then \<^verbatim>\<open>scrape_url\<close> without the histories returns a record whose description is the
  text of the description region and which has the six summary keys. With the histories it
  returns what the history step returns, and every record it returns has that description
  and the six keys.
\<close>

theorem scrape_with_both_regions:
  assumes "validate_scraper_input (urllib_of ev) (constants_of ev) url zpid = Inr u"
    and "get_raw_html ev u t w = (Inr html, w1)"
    and "find_prop_summary (constants_of ev) (BeautifulSoup ev html) = Some ps"
    and "find_description (constants_of ev) (BeautifulSoup ev html) = Some d"
    and "succeeds (parse_facts (constants_of ev) (datetime_now ev)
                     (get_fact_list (constants_of ev) (BeautifulSoup ev html)))"
    and "succeeds (get_sale_info (constants_of ev) (BeautifulSoup ev html))"
    and "succeeds (get_location_data (urllib_of ev) (BeautifulSoup ev html))"
  shows "\<exists>r. scrape_url ev url zpid t False w = (Inr r, w1)
           \<and> r ''description'' = Some (PStr (get_text d)) \<and> set summary_keys \<subseteq> dom r
           \<and> scrape_url ev url zpid t True w
               = populate_price_and_tax_histories ev (BeautifulSoup ev html) r t w1
           \<and> (\<forall>r' w'. scrape_url ev url zpid t True w = (Inr r', w') \<longrightarrow>
                 r' ''description'' = Some (PStr (get_text d)) \<and> set summary_keys \<subseteq> dom r')"
proof -
  from extract_record_with_regions [OF assms(3-7)] obtain r where
    r: "extract_record ev (BeautifulSoup ev html) = Inr r"
       "r ''description'' = Some (PStr (get_text d))" "set summary_keys \<subseteq> dom r"
    by blast
  have a: "scrape_url ev url zpid t False w = (Inr r, w1)"
    using r(1) by (simp add: scrape_url_unfold [OF assms(1,2)])
  have b: "scrape_url ev url zpid t True w
             = populate_price_and_tax_histories ev (BeautifulSoup ev html) r t w1"
    using r(1) by (simp add: scrape_url_unfold [OF assms(1,2)])
  have c: "r' ''description'' = Some (PStr (get_text d)) \<and> set summary_keys \<subseteq> dom r'"
    if "scrape_url ev url zpid t True w = (Inr r', w')" for r' w'
    using that b populate_keeps [of ev "BeautifulSoup ev html" r t w1 r' w'] r(2,3) by simp
  from a b c r(2,3) show ?thesis by blast
qed

theorem scrape_with_both_regions_witness:
  "(\<exists>r. scrape_url sample_env None (Some 1) 10 False world0
           = (Inr r, world0\<lparr>requested := [sample_address 1]\<rparr>)
        \<and> r ''description'' = Some (PStr ''A sunny home.'') \<and> set summary_keys \<subseteq> dom r)
   \<and> (\<exists>r' w'. scrape_url sample_env None (Some 1) 10 True world0 = (Inr r', w')
        \<and> r' ''description'' = Some (PStr ''A sunny home.'') \<and> set summary_keys \<subseteq> dom r')"
proof -
  have 1: "validate_scraper_input (urllib_of sample_env) (constants_of sample_env) None (Some 1)
             = Inr (sample_address 1)"
    by code_simp
  have 2: "get_raw_html sample_env (sample_address 1) 10 world0
             = (Inr ''full'', world0\<lparr>requested := [sample_address 1]\<rparr>)"
    by code_simp
  have 3: "find_prop_summary (constants_of sample_env) (BeautifulSoup sample_env ''full'') = Some summary_div"
    by code_simp
  have 4: "find_description (constants_of sample_env) (BeautifulSoup sample_env ''full'') = Some description_div"
    by code_simp
  have 5: "succeeds (parse_facts (constants_of sample_env) (datetime_now sample_env)
                     (get_fact_list (constants_of sample_env) (BeautifulSoup sample_env ''full'')))"
    by code_simp
  have 6: "succeeds (get_sale_info (constants_of sample_env) (BeautifulSoup sample_env ''full''))"
    by code_simp
  have 7: "succeeds (get_location_data (urllib_of sample_env) (BeautifulSoup sample_env ''full''))"
    by code_simp
  have 8: "get_text description_div = ''A sunny home.''"
    by code_simp
  have 9: "succeeds (fst (scrape_url sample_env None (Some 1) 10 True world0))"
    by code_simp
  then obtain r' w' where 10: "scrape_url sample_env None (Some 1) 10 True world0 = (Inr r', w')"
    by (metis succeeds_Inr prod.collapse)
  from scrape_with_both_regions [OF 1 2 3 4 5 6 7] 8 10 show ?thesis
    by (metis (no_types, lifting))
qed

theorem scrape_without_value_wrapper_counterexample:
  "find_prop_summary sample_constants (sample_parser ''no wrapper'') = Some summary_div
   \<and> find_description sample_constants (sample_parser ''no wrapper'') = Some description_div
   \<and> get_raw_html sample_env (sample_address 2) 10 world0
        = (Inr ''no wrapper'', world0\<lparr>requested := [sample_address 2]\<rparr>)
   \<and> fst (scrape_url sample_env None (Some 2) 10 False world0) = Inl AttributeError"
proof -
  have "raised (fst (scrape_url sample_env None (Some 2) 10 False world0)) = Some AttributeError"
    by code_simp
  then have "fst (scrape_url sample_env None (Some 2) 10 False world0) = Inl AttributeError"
    by (simp add: raised_Some)
  moreover have "find_prop_summary sample_constants (sample_parser ''no wrapper'') = Some summary_div"
    by code_simp
  moreover have "find_description sample_constants (sample_parser ''no wrapper'') = Some description_div"
    by code_simp
  moreover have "get_raw_html sample_env (sample_address 2) 10 world0
        = (Inr ''no wrapper'', world0\<lparr>requested := [sample_address 2]\<rparr>)"
    by code_simp
  ultimately show ?thesis by simp
qed

lemma extract_record_no_description:
  assumes "find_description (constants_of ev) soup = None"
  shows "\<exists>e. extract_record ev soup = Inl e"
proof (cases "extract_record ev soup")
  case (Inl e)
  then show ?thesis by blast
next
  case (Inr r)
  then show ?thesis using assms by (auto simp: extract_record_Inr)
qed

lemma extract_record_description_raises:
  assumes "find_description (constants_of ev) soup = None"
    and "find_prop_summary (constants_of ev) soup = Some ps"
    and "succeeds (parse_facts (constants_of ev) (datetime_now ev) (get_fact_list (constants_of ev) soup))"
    and "succeeds (get_sale_info (constants_of ev) soup)"
  shows "extract_record ev soup = Inl NullResultException"
proof -
  from get_property_summary_found [OF assms(2)] obtain summary where
    "get_property_summary (constants_of ev) soup = Inr summary" by blast
  moreover from assms(3,4) obtain facts sale where
    "parse_facts (constants_of ev) (datetime_now ev) (get_fact_list (constants_of ev) soup) = Inr facts"
    "get_sale_info (constants_of ev) soup = Inr sale"
    by (auto simp: succeeds_Inr)
  ultimately show ?thesis
    using assms(1) by (simp add: extract_record_def get_description_cases)
qed

text \<open>
  Claim C2, as the code has it. The page has been fetched and parsed. Without the summary
  region \<^verbatim>\<open>scrape_url\<close> raises \<^verbatim>\<open>NullResultException\<close>. Without the description region it
  raises; the exception is \<^verbatim>\<open>NullResultException\<close> when the summary region is there and the
  fact and sale-info extractors, which run first, raise nothing. In both cases the only
  address requested is the page's own and nothing is logged, whether the histories were
  asked for or not.
\<close>

theorem scrape_without_mandatory_region:
  assumes "validate_scraper_input (urllib_of ev) (constants_of ev) url zpid = Inr u"
    and "get_raw_html ev u t w = (Inr html, w1)"
  shows "(find_prop_summary (constants_of ev) (BeautifulSoup ev html) = None \<longrightarrow>
            scrape_url ev url zpid t h w = (Inl NullResultException, w1))
     \<and> (find_description (constants_of ev) (BeautifulSoup ev html) = None \<longrightarrow>
            (\<exists>e. scrape_url ev url zpid t h w = (Inl e, w1)))
     \<and> (find_description (constants_of ev) (BeautifulSoup ev html) = None
          \<and> find_prop_summary (constants_of ev) (BeautifulSoup ev html) = Some ps
          \<and> succeeds (parse_facts (constants_of ev) (datetime_now ev)
                        (get_fact_list (constants_of ev) (BeautifulSoup ev html)))
          \<and> succeeds (get_sale_info (constants_of ev) (BeautifulSoup ev html)) \<longrightarrow>
            scrape_url ev url zpid t h w = (Inl NullResultException, w1))
     \<and> requested w1 = requested w @ [u] \<and> logged w1 = logged w"
proof -
  note unfold = scrape_url_unfold [OF assms]
  have a: "scrape_url ev url zpid t h w = (Inl NullResultException, w1)"
    if "find_prop_summary (constants_of ev) (BeautifulSoup ev html) = None"
    using that by (simp add: unfold extract_record_def get_property_summary_missing)
  have b: "\<exists>e. scrape_url ev url zpid t h w = (Inl e, w1)"
    if "find_description (constants_of ev) (BeautifulSoup ev html) = None"
    using extract_record_no_description [OF that] by (auto simp: unfold)
  have c: "scrape_url ev url zpid t h w = (Inl NullResultException, w1)"
    if "find_description (constants_of ev) (BeautifulSoup ev html) = None"
      "find_prop_summary (constants_of ev) (BeautifulSoup ev html) = Some ps"
      "succeeds (parse_facts (constants_of ev) (datetime_now ev)
                        (get_fact_list (constants_of ev) (BeautifulSoup ev html)))"
      "succeeds (get_sale_info (constants_of ev) (BeautifulSoup ev html))"
    using extract_record_description_raises [OF that] by (simp add: unfold)
  have d: "requested w1 = requested w @ [u] \<and> logged w1 = logged w"
    using get_raw_html_world [OF assms(2)] by simp
  from a b c d show ?thesis by blast
qed

theorem scrape_without_mandatory_region_witness:
  "scrape_url sample_env None (Some 4) 10 True world0
     = (Inl NullResultException, world0\<lparr>requested := [sample_address 4]\<rparr>)
   \<and> scrape_url sample_env None (Some 5) 10 True world0
     = (Inl NullResultException, world0\<lparr>requested := [sample_address 5]\<rparr>)
   \<and> requested (world0\<lparr>requested := [sample_address 4]\<rparr>) = requested world0 @ [sample_address 4]"
proof -
  have v4: "validate_scraper_input (urllib_of sample_env) (constants_of sample_env) None (Some 4)
             = Inr (sample_address 4)"
    by code_simp
  have g4: "get_raw_html sample_env (sample_address 4) 10 world0
             = (Inr ''no summary'', world0\<lparr>requested := [sample_address 4]\<rparr>)"
    by code_simp
  have s4: "find_prop_summary (constants_of sample_env) (BeautifulSoup sample_env ''no summary'') = None"
    by code_simp
  have v5: "validate_scraper_input (urllib_of sample_env) (constants_of sample_env) None (Some 5)
             = Inr (sample_address 5)"
    by code_simp
  have g5: "get_raw_html sample_env (sample_address 5) 10 world0
             = (Inr ''no description'', world0\<lparr>requested := [sample_address 5]\<rparr>)"
    by code_simp
  have d5: "find_description (constants_of sample_env) (BeautifulSoup sample_env ''no description'') = None"
    by code_simp
  have s5: "find_prop_summary (constants_of sample_env) (BeautifulSoup sample_env ''no description'')
              = Some summary_div"
    by code_simp
  have f5: "succeeds (parse_facts (constants_of sample_env) (datetime_now sample_env)
              (get_fact_list (constants_of sample_env) (BeautifulSoup sample_env ''no description'')))"
    by code_simp
  have i5: "succeeds (get_sale_info (constants_of sample_env) (BeautifulSoup sample_env ''no description''))"
    by code_simp
  from scrape_without_mandatory_region [OF v4 g4, where h = True and ps = summary_div] s4
  have a: "scrape_url sample_env None (Some 4) 10 True world0
     = (Inl NullResultException, world0\<lparr>requested := [sample_address 4]\<rparr>)"
    and c: "requested (world0\<lparr>requested := [sample_address 4]\<rparr>) = requested world0 @ [sample_address 4]"
    by blast+
  from scrape_without_mandatory_region [OF v5 g5, where h = True and ps = summary_div] d5 s5 f5 i5
  have b: "scrape_url sample_env None (Some 5) 10 True world0
     = (Inl NullResultException, world0\<lparr>requested := [sample_address 5]\<rparr>)"
    by blast
  from a b c show ?thesis by blast
qed

theorem scrape_without_description_counterexample:
  "find_description sample_constants (sample_parser ''summary only'') = None
   \<and> get_raw_html sample_env (sample_address 3) 10 world0
        = (Inr ''summary only'', world0\<lparr>requested := [sample_address 3]\<rparr>)
   \<and> fst (scrape_url sample_env None (Some 3) 10 True world0) = Inl AttributeError"
proof -
  have "raised (fst (scrape_url sample_env None (Some 3) 10 True world0)) = Some AttributeError"
    by code_simp
  then have "fst (scrape_url sample_env None (Some 3) 10 True world0) = Inl AttributeError"
    by (simp add: raised_Some)
  moreover have "find_description sample_constants (sample_parser ''summary only'') = None"
    by code_simp
  moreover have "get_raw_html sample_env (sample_address 3) 10 world0
        = (Inr ''summary only'', world0\<lparr>requested := [sample_address 3]\<rparr>)"
    by code_simp
  ultimately show ?thesis by simp
qed

section \<open>Failures of the history fetches\<close>

lemma scrape_url_history:
  assumes "scrape_url ev url zpid t False w = (Inr r0, w1)"
  shows "\<exists>html. scrape_url ev url zpid t True w
           = populate_price_and_tax_histories ev (BeautifulSoup ev html) r0 t w1"
proof -
  from scrape_url_Inr [OF assms] obtain u html where
    "validate_scraper_input (urllib_of ev) (constants_of ev) url zpid = Inr u"
    "get_raw_html ev u t w = (Inr html, w1)"
    "extract_record ev (BeautifulSoup ev html) = Inr r0"
    by auto
  then have "scrape_url ev url zpid t True w
           = populate_price_and_tax_histories ev (BeautifulSoup ev html) r0 t w1"
    by (simp add: scrape_url_unfold)
  then show ?thesis by blast
qed

lemma populate_one_not_found:
  "get_ajax_url soup label = Inl NullResultException \<Longrightarrow>
   populate_one fetch label key msg soup results t w = (Inr results, log_failure msg w)"
  by (simp add: populate_one_def)

lemma get_table_body_no_table:
  assumes "get_raw_html ev a t w = (Inr html, w')"
    and "re_search re_envelope html = Some (m, cs)"
    and "find_tag (BeautifulSoup ev (re_sub re_escaped_slash ''/'' (re_sub re_escaped_quote [dq] (match_group cs 1))))
           (named ''table'') = None"
  shows "get_table_body ev a t w = (Inl ValueError, w')"
  using assms by (simp add: get_table_body_def Let_def)

lemma get_tax_history_no_table:
  assumes "get_raw_html ev a t w = (Inr html, w')"
    and "re_search re_envelope html = Some (m, cs)"
    and "find_tag (BeautifulSoup ev (re_sub re_escaped_slash ''/'' (re_sub re_escaped_quote [dq] (match_group cs 1))))
           (named ''table'') = None"
  shows "get_tax_history ev a t w = (Inr [], w') \<and> logged w' = logged w"
proof -
  from get_table_body_no_table [OF assms] have "get_tax_history ev a t w = (Inr [], w')"
    by (simp add: get_tax_history_def)
  moreover from get_raw_html_world [OF assms(1)] have "logged w' = logged w"
    by simp
  ultimately show ?thesis by simp
qed

text \<open>
  Claim C5, as the code has it. When the descriptor of a history is not found, the
  orchestrator catches the \<^verbatim>\<open>NullResultException\<close>, prints and logs it and leaves the record
  as it was; with both descriptors missing the record is returned unchanged after two such
  entries. The history step never raises \<^verbatim>\<open>NullResultException\<close>, and a record it returns
  agrees with the record it was given on every key but \<^verbatim>\<open>price_history\<close> and
  \<^verbatim>\<open>tax_history\<close>; the same holds for \<^verbatim>\<open>scrape_url\<close> with the histories against
  \<^verbatim>\<open>scrape_url\<close> without them. When the tax history has been located and fetched and the
  fragment in the envelope has no table, the tax fetcher itself returns the empty list, the
  orchestrator stores it under \<^verbatim>\<open>tax_history\<close>, and nothing is logged.
\<close>

theorem history_failures:
  "(get_ajax_url soup ''z-hdp-price-history'' = Inl NullResultException \<longrightarrow>
      populate_one (get_price_history ev) ''z-hdp-price-history'' ''price_history'' price_message
        soup results t w = (Inr results, log_failure price_message w))
   \<and> (get_ajax_url soup ''z-expando-table'' = Inl NullResultException \<longrightarrow>
      populate_one (get_tax_history ev) ''z-expando-table'' ''tax_history'' tax_message
        soup results t w = (Inr results, log_failure tax_message w))
   \<and> (get_ajax_url soup ''z-hdp-price-history'' = Inl NullResultException
        \<and> get_ajax_url soup ''z-expando-table'' = Inl NullResultException \<longrightarrow>
      populate_price_and_tax_histories ev soup results t w
        = (Inr results, log_failure tax_message (log_failure price_message w)))
   \<and> fst (populate_price_and_tax_histories ev soup results t w) \<noteq> Inl NullResultException
   \<and> (populate_price_and_tax_histories ev soup results t w = (Inr r, w')
        \<and> key \<noteq> ''price_history'' \<and> key \<noteq> ''tax_history'' \<longrightarrow> r key = results key)
   \<and> (scrape_url ev url zpid t False w = (Inr r0, w1) \<longrightarrow>
        fst (scrape_url ev url zpid t True w) \<noteq> Inl NullResultException
        \<and> (scrape_url ev url zpid t True w = (Inr r, w')
            \<and> key \<noteq> ''price_history'' \<and> key \<noteq> ''tax_history'' \<longrightarrow> r key = r0 key))
   \<and> (get_ajax_url soup ''z-expando-table'' = Inr tax_url
        \<and> get_raw_html ev tax_url t w = (Inr fragment, w2)
        \<and> re_search re_envelope fragment = Some (m, cs)
        \<and> find_tag (BeautifulSoup ev (re_sub re_escaped_slash ''/''
                                        (re_sub re_escaped_quote [dq] (match_group cs 1))))
              (named ''table'') = None \<longrightarrow>
        get_tax_history ev tax_url t w = (Inr [], w2) \<and> logged w2 = logged w
        \<and> populate_one (get_tax_history ev) ''z-expando-table'' ''tax_history'' tax_message
              soup results t w = (Inr (results(''tax_history'' \<mapsto> PList [])), w2))"
proof -
  have a: "populate_price_and_tax_histories ev soup results t w
        = (Inr results, log_failure tax_message (log_failure price_message w))"
    if "get_ajax_url soup ''z-hdp-price-history'' = Inl NullResultException"
       "get_ajax_url soup ''z-expando-table'' = Inl NullResultException"
    using that by (simp add: populate_price_and_tax_histories_def populate_one_not_found)
  have b: "fst (scrape_url ev url zpid t True w) \<noteq> Inl NullResultException
        \<and> (scrape_url ev url zpid t True w = (Inr r, w')
            \<and> key \<noteq> ''price_history'' \<and> key \<noteq> ''tax_history'' \<longrightarrow> r key = r0 key)"
    if "scrape_url ev url zpid t False w = (Inr r0, w1)"
  proof -
    from scrape_url_history [OF that] obtain html where
      h: "scrape_url ev url zpid t True w
           = populate_price_and_tax_histories ev (BeautifulSoup ev html) r0 t w1"
      by blast
    show ?thesis
      using populate_not_null [of ev "BeautifulSoup ev html" r0 t w1]
        populate_frame [of ev "BeautifulSoup ev html" r0 t w1 r w' key]
      by (simp add: h)
  qed
  have c: "get_tax_history ev tax_url t w = (Inr [], w2) \<and> logged w2 = logged w
        \<and> populate_one (get_tax_history ev) ''z-expando-table'' ''tax_history'' tax_message
              soup results t w = (Inr (results(''tax_history'' \<mapsto> PList [])), w2)"
    if "get_ajax_url soup ''z-expando-table'' = Inr tax_url"
      "get_raw_html ev tax_url t w = (Inr fragment, w2)"
      "re_search re_envelope fragment = Some (m, cs)"
      "find_tag (BeautifulSoup ev (re_sub re_escaped_slash ''/''
                                        (re_sub re_escaped_quote [dq] (match_group cs 1))))
              (named ''table'') = None"
    using get_tax_history_no_table [OF that(2,3,4)] that(1) by (simp add: populate_one_def)
  have d: "(get_ajax_url soup ''z-hdp-price-history'' = Inl NullResultException \<longrightarrow>
      populate_one (get_price_history ev) ''z-hdp-price-history'' ''price_history'' price_message
        soup results t w = (Inr results, log_failure price_message w))
   \<and> (get_ajax_url soup ''z-expando-table'' = Inl NullResultException \<longrightarrow>
      populate_one (get_tax_history ev) ''z-expando-table'' ''tax_history'' tax_message
        soup results t w = (Inr results, log_failure tax_message w))
   \<and> (get_ajax_url soup ''z-hdp-price-history'' = Inl NullResultException
        \<and> get_ajax_url soup ''z-expando-table'' = Inl NullResultException \<longrightarrow>
      populate_price_and_tax_histories ev soup results t w
        = (Inr results, log_failure tax_message (log_failure price_message w)))
   \<and> fst (populate_price_and_tax_histories ev soup results t w) \<noteq> Inl NullResultException
   \<and> (populate_price_and_tax_histories ev soup results t w = (Inr r, w')
        \<and> key \<noteq> ''price_history'' \<and> key \<noteq> ''tax_history'' \<longrightarrow> r key = results key)
   \<and> (scrape_url ev url zpid t False w = (Inr r0, w1) \<longrightarrow>
        fst (scrape_url ev url zpid t True w) \<noteq> Inl NullResultException
        \<and> (scrape_url ev url zpid t True w = (Inr r, w')
            \<and> key \<noteq> ''price_history'' \<and> key \<noteq> ''tax_history'' \<longrightarrow> r key = r0 key))"
    using a b populate_one_not_found populate_not_null populate_frame
    by (metis (no_types, lifting))
  from d c show ?thesis by blast
qed

theorem history_failures_witness:
  "populate_price_and_tax_histories sample_env (sample_parser ''no descriptors'') Map.empty 10 world0
     = (Inr Map.empty, log_failure tax_message (log_failure price_message world0))
   \<and> logged (log_failure tax_message (log_failure price_message world0))
       = [Printed price_message, LoggedException NullResultException,
          Printed tax_message, LoggedException NullResultException]
   \<and> fst (scrape_url sample_env None (Some 7) 10 True world0) \<noteq> Inl NullResultException
   \<and> get_tax_history sample_env (ajax_address ''N'') 10 world0
       = (Inr [], world0\<lparr>requested := [ajax_address ''N'']\<rparr>)
   \<and> logged (world0\<lparr>requested := [ajax_address ''N'']\<rparr>) = logged world0
   \<and> populate_one (get_tax_history sample_env) ''z-expando-table'' ''tax_history'' tax_message
         full_listing Map.empty 10 world0
       = (Inr [''tax_history'' \<mapsto> PList []], world0\<lparr>requested := [ajax_address ''N'']\<rparr>)"
proof -
  have 1: "get_ajax_url (sample_parser ''no descriptors'') ''z-hdp-price-history'' = Inl NullResultException"
    by code_simp
  have 2: "get_ajax_url (sample_parser ''no descriptors'') ''z-expando-table'' = Inl NullResultException"
    by code_simp
  have 3: "succeeds (fst (scrape_url sample_env None (Some 7) 10 False world0))"
    by code_simp
  then obtain r0 w1 where 4: "scrape_url sample_env None (Some 7) 10 False world0 = (Inr r0, w1)"
    by (metis succeeds_Inr prod.collapse)
  have 5: "logged (log_failure tax_message (log_failure price_message world0))
       = [Printed price_message, LoggedException NullResultException,
          Printed tax_message, LoggedException NullResultException]"
    by (simp add: log_failure_def world0_def)
  have 6: "get_ajax_url full_listing ''z-expando-table'' = Inr (ajax_address ''N'')"
    by code_simp
  have 7: "get_raw_html sample_env (ajax_address ''N'') 10 world0
             = (Inr (envelope ''nothing''), world0\<lparr>requested := [ajax_address ''N'']\<rparr>)"
    by code_simp
  have "map_option (\<lambda>(m, cs). match_group cs 1) (re_search re_envelope (envelope ''nothing''))
          = Some ''nothing''"
    by code_simp
  then obtain m cs where 8: "re_search re_envelope (envelope ''nothing'') = Some (m, cs)"
    and g: "match_group cs 1 = ''nothing''"
    by auto
  have "find_tag (BeautifulSoup sample_env
                    (re_sub re_escaped_slash ''/'' (re_sub re_escaped_quote [dq] ''nothing'')))
           (named ''table'') = None"
    by code_simp
  with g have 9: "find_tag (BeautifulSoup sample_env
                     (re_sub re_escaped_slash ''/'' (re_sub re_escaped_quote [dq] (match_group cs 1))))
           (named ''table'') = None"
    by simp
  note h = history_failures [of "sample_parser ''no descriptors''" sample_env Map.empty 10 world0
      Map.empty world0 "''description''" None "Some 7" r0 w1]
  note n = history_failures [of full_listing sample_env Map.empty 10 world0
      Map.empty world0 "''description''" None "Some 7" r0 w1 "ajax_address ''N''" "envelope ''nothing''"
      "world0\<lparr>requested := [ajax_address ''N'']\<rparr>" m cs]
  from h 1 2 have a: "populate_price_and_tax_histories sample_env (sample_parser ''no descriptors'')
      Map.empty 10 world0
     = (Inr Map.empty, log_failure tax_message (log_failure price_message world0))"
    by blast
  from h 4 have b: "fst (scrape_url sample_env None (Some 7) 10 True world0) \<noteq> Inl NullResultException"
    by blast
  from n 6 7 8 9 have c: "get_tax_history sample_env (ajax_address ''N'') 10 world0
       = (Inr [], world0\<lparr>requested := [ajax_address ''N'']\<rparr>)
   \<and> logged (world0\<lparr>requested := [ajax_address ''N'']\<rparr>) = logged world0
   \<and> populate_one (get_tax_history sample_env) ''z-expando-table'' ''tax_history'' tax_message
         full_listing Map.empty 10 world0
       = (Inr [''tax_history'' \<mapsto> PList []], world0\<lparr>requested := [ajax_address ''N'']\<rparr>)"
    by blast
  from a b c 5 show ?thesis by blast
qed

theorem price_history_without_table_counterexample:
  "succeeds (fst (scrape_url sample_env None (Some 6) 10 False world0))
   \<and> get_ajax_url (sample_parser ''no price table'') ''z-hdp-price-history'' = Inr (ajax_address ''N'')
   \<and> fst (scrape_url sample_env None (Some 6) 10 True world0) = Inl ValueError
   \<and> fst (get_tax_history sample_env (ajax_address ''N'') 10 world0) = Inr []
   \<and> logged (snd (get_tax_history sample_env (ajax_address ''N'') 10 world0)) = []"
proof -
  have "raised (fst (scrape_url sample_env None (Some 6) 10 True world0)) = Some ValueError"
    by code_simp
  then have "fst (scrape_url sample_env None (Some 6) 10 True world0) = Inl ValueError"
    by (simp add: raised_Some)
  moreover have "succeeds (fst (scrape_url sample_env None (Some 6) 10 False world0))"
    by code_simp
  moreover have "get_ajax_url (sample_parser ''no price table'') ''z-hdp-price-history''
      = Inr (ajax_address ''N'')"
    by code_simp
  moreover have "fst (get_tax_history sample_env (ajax_address ''N'') 10 world0) = Inr []"
    by code_simp
  moreover have "logged (snd (get_tax_history sample_env (ajax_address ''N'') 10 world0)) = []"
    by code_simp
  ultimately show ?thesis by simp
qed

section \<open>A tax-history fragment without a table\<close>

text \<open>
  Claim C6. The page has been fetched and the record \<open>r0\<close> extracted; the price history has
  been located and fetched with rows \<open>rows\<close>; the tax history has been located, its address
  fetched, the envelope found, and the fragment in it has no table. Then the tax fetcher
  returns the empty list, and \<^verbatim>\<open>scrape_url\<close> returns \<open>r0\<close> with \<open>rows\<close> under
  \<^verbatim>\<open>price_history\<close> and the empty list under \<^verbatim>\<open>tax_history\<close>, every other key as in \<open>r0\<close>.
\<close>

theorem tax_history_without_table:
  assumes "validate_scraper_input (urllib_of ev) (constants_of ev) url zpid = Inr u"
    and "get_raw_html ev u t w = (Inr html, w1)"
    and "extract_record ev (BeautifulSoup ev html) = Inr r0"
    and "get_ajax_url (BeautifulSoup ev html) ''z-hdp-price-history'' = Inr price_url"
    and "get_price_history ev price_url t w1 = (Inr rows, w2)"
    and "get_ajax_url (BeautifulSoup ev html) ''z-expando-table'' = Inr tax_url"
    and "get_raw_html ev tax_url t w2 = (Inr fragment, w3)"
    and "re_search re_envelope fragment = Some (m, cs)"
    and "find_tag (BeautifulSoup ev (re_sub re_escaped_slash ''/'' (re_sub re_escaped_quote [dq] (match_group cs 1))))
           (named ''table'') = None"
  shows "get_tax_history ev tax_url t w2 = (Inr [], w3)
     \<and> scrape_url ev url zpid t True w
         = (Inr (r0(''price_history'' \<mapsto> PList rows, ''tax_history'' \<mapsto> PList [])), w3)
     \<and> (r0(''price_history'' \<mapsto> PList rows, ''tax_history'' \<mapsto> PList [])) ''price_history''
         = Some (PList rows)
     \<and> (\<forall>key. key \<noteq> ''price_history'' \<and> key \<noteq> ''tax_history'' \<longrightarrow>
           (r0(''price_history'' \<mapsto> PList rows, ''tax_history'' \<mapsto> PList [])) key = r0 key)"
proof -
  have tb: "get_table_body ev tax_url t w2 = (Inl ValueError, w3)"
    using assms(7,8,9) by (rule get_table_body_no_table)
  then have tax: "get_tax_history ev tax_url t w2 = (Inr [], w3)"
    by (simp add: get_tax_history_def)
  have p1: "populate_one (get_price_history ev) ''z-hdp-price-history'' ''price_history'' price_message
          (BeautifulSoup ev html) r0 t w1 = (Inr (r0(''price_history'' \<mapsto> PList rows)), w2)"
    using assms(4,5) by (simp add: populate_one_def)
  have p2: "populate_one (get_tax_history ev) ''z-expando-table'' ''tax_history'' tax_message
          (BeautifulSoup ev html) (r0(''price_history'' \<mapsto> PList rows)) t w2
        = (Inr (r0(''price_history'' \<mapsto> PList rows, ''tax_history'' \<mapsto> PList [])), w3)"
    using assms(6) tax by (simp add: populate_one_def)
  have "populate_price_and_tax_histories ev (BeautifulSoup ev html) r0 t w1
        = (Inr (r0(''price_history'' \<mapsto> PList rows, ''tax_history'' \<mapsto> PList [])), w3)"
    by (simp add: populate_price_and_tax_histories_def p1 p2)
  then have "scrape_url ev url zpid t True w
         = (Inr (r0(''price_history'' \<mapsto> PList rows, ''tax_history'' \<mapsto> PList [])), w3)"
    using assms(3) by (simp add: scrape_url_unfold [OF assms(1,2)])
  with tax show ?thesis by simp
qed

theorem tax_history_without_table_witness:
  "\<exists>r0. scrape_url sample_env None (Some 1) 10 True world0
      = (Inr (r0(''price_history'' \<mapsto> PList [PList [PStr ''01/02/15'', PStr ''Sold'', PStr ''$500,000'']],
                ''tax_history'' \<mapsto> PList [])),
         world0\<lparr>requested := [sample_address 1, ajax_address ''P'', ajax_address ''N'']\<rparr>)
     \<and> extract_record sample_env full_listing = Inr r0"
proof -
  let ?w1 = "world0\<lparr>requested := [sample_address 1]\<rparr>"
  let ?w2 = "world0\<lparr>requested := [sample_address 1, ajax_address ''P'']\<rparr>"
  let ?w3 = "world0\<lparr>requested := [sample_address 1, ajax_address ''P'', ajax_address ''N'']\<rparr>"
  have 1: "validate_scraper_input (urllib_of sample_env) (constants_of sample_env) None (Some 1)
             = Inr (sample_address 1)"
    by code_simp
  have 2: "get_raw_html sample_env (sample_address 1) 10 world0 = (Inr ''full'', ?w1)"
    by code_simp
  have p: "BeautifulSoup sample_env ''full'' = full_listing"
    by code_simp
  have "succeeds (extract_record sample_env full_listing)"
    by code_simp
  then obtain r0 where 3: "extract_record sample_env full_listing = Inr r0"
    by (auto simp: succeeds_Inr)
  have 4: "get_ajax_url full_listing ''z-hdp-price-history'' = Inr (ajax_address ''P'')"
    by code_simp
  have 5: "get_price_history sample_env (ajax_address ''P'') 10 ?w1
             = (Inr [PList [PStr ''01/02/15'', PStr ''Sold'', PStr ''$500,000'']], ?w2)"
    by code_simp
  have 6: "get_ajax_url full_listing ''z-expando-table'' = Inr (ajax_address ''N'')"
    by code_simp
  have 7: "get_raw_html sample_env (ajax_address ''N'') 10 ?w2 = (Inr (envelope ''nothing''), ?w3)"
    by code_simp
  have "map_option (\<lambda>(m, cs). match_group cs 1) (re_search re_envelope (envelope ''nothing'')) = Some ''nothing''"
    by code_simp
  then obtain m cs where 8: "re_search re_envelope (envelope ''nothing'') = Some (m, cs)"
    and g: "match_group cs 1 = ''nothing''"
    by auto
  have "find_tag (BeautifulSoup sample_env (re_sub re_escaped_slash ''/'' (re_sub re_escaped_quote [dq] ''nothing'')))
           (named ''table'') = None"
    by code_simp
  with g have 9: "find_tag (BeautifulSoup sample_env
                     (re_sub re_escaped_slash ''/'' (re_sub re_escaped_quote [dq] (match_group cs 1))))
           (named ''table'') = None"
    by simp
  from tax_history_without_table [OF 1 2 _ _ 5 _ 7 8 9, of r0] p 3 4 6
  have "scrape_url sample_env None (Some 1) 10 True world0
      = (Inr (r0(''price_history'' \<mapsto> PList [PList [PStr ''01/02/15'', PStr ''Sold'', PStr ''$500,000'']],
                ''tax_history'' \<mapsto> PList [])), ?w3)"
    by simp
  with 3 show ?thesis by blast
qed

section \<open>The keys of the sale information\<close>

lemma star_iter_caps:
  assumes "\<And>s cs s' cs'. (s', cs') \<in> set (f s cs) \<Longrightarrow> cs' i = cs i"
  shows "(s', cs') \<in> set (star_iter n f s cs) \<Longrightarrow> cs' i = cs i"
proof (induction n arbitrary: s cs)
  case 0
  then show ?case by simp
next
  case (Suc n)
  from Suc.prems consider
    (more) s1 cs1 where "(s1, cs1) \<in> set (f s cs)" "(s', cs') \<in> set (star_iter n f s1 cs1)"
    | (stop) "(s', cs') = (s, cs)"
    by (auto split: if_splits)
  then show ?case
  proof cases
    case more
    from Suc.IH [OF more(2)] assms [OF more(1)] show ?thesis by simp
  next
    case stop
    then show ?thesis by simp
  qed
qed

lemma rmatch_caps:
  "(s', cs') \<in> set (rmatch r s cs) \<Longrightarrow> i \<notin> grp_ids r \<Longrightarrow> cs' i = cs i"
proof (induction r arbitrary: s cs s' cs')
  case (Lits l)
  then show ?case by (auto split: if_splits)
next
  case (Cls p)
  then show ?case by (auto split: list.splits if_splits)
next
  case (Seq a b)
  from Seq.prems(1) obtain s1 cs1 where
    1: "(s1, cs1) \<in> set (rmatch a s cs)" and 2: "(s', cs') \<in> set (rmatch b s1 cs1)"
    by auto
  from Seq.prems(2) have "i \<notin> grp_ids a" "i \<notin> grp_ids b" by simp_all
  with Seq.IH(1) [OF 1] Seq.IH(2) [OF 2] show ?case by simp
next
  case (Alt a b)
  then show ?case by auto
next
  case (Star a)
  have "\<And>s cs s' cs'. (s', cs') \<in> set (rmatch a s cs) \<Longrightarrow> cs' i = cs i"
    using Star.IH Star.prems(2) by simp
  moreover from Star.prems(1) have "(s', cs') \<in> set (star_iter (length s) (rmatch a) s cs)"
    by simp
  ultimately show ?case by (rule star_iter_caps)
next
  case (Grp j a)
  from Grp.prems(1) obtain cs1 where "(s', cs1) \<in> set (rmatch a s cs)"
    and "cs' = cs1(j \<mapsto> take (length s - length s') s)"
    by auto
  with Grp.IH Grp.prems(2) show ?case by auto
qed

lemma startswith_take: "startswith s l \<Longrightarrow> take (length l) s = l \<and> length l \<le> length s"
  by (induction s l rule: startswith.induct) auto

lemma rmatch_Alts:
  "(s', cs') \<in> set (rmatch (Alts ls) s cs) \<Longrightarrow>
   \<exists>l \<in> set ls. startswith s l \<and> s' = drop (length l) s \<and> cs' = cs"
  by (induction ls rule: Alts.induct) (auto split: if_splits)

lemma rmatch_label_group:
  assumes "(s', cs') \<in> set (rmatch (Grp i (Alts ls)) s cs)"
  shows "\<exists>l \<in> set ls. cs' i = Some l"
proof -
  from assms obtain cs1 where m: "(s', cs1) \<in> set (rmatch (Alts ls) s cs)"
    and c: "cs' = cs1(i \<mapsto> take (length s - length s') s)"
    by auto
  from rmatch_Alts [OF m] obtain l where l: "l \<in> set ls" "startswith s l" "s' = drop (length l) s"
    by blast
  from startswith_take [OF l(2)] l(3) have "take (length s - length s') s = l"
    by simp
  with c l(1) show ?thesis by auto
qed

lemma re_search_rmatch:
  "re_search r s = Some (m, cs) \<Longrightarrow> \<exists>t s'. (s', cs) \<in> set (rmatch r t Map.empty)"
proof (induction s)
  case Nil
  then show ?case by (auto split: list.splits) (metis list.set_intros(1))
next
  case (Cons c t)
  show ?case
  proof (cases "rmatch r (c # t) Map.empty")
    case Nil
    with Cons show ?thesis by simp
  next
    case (Cons x xs)
    with Cons.prems have "(fst x, cs) \<in> set (rmatch r (c # t) Map.empty)"
      by (cases x) auto
    then show ?thesis by blast
  qed
qed

lemma rmatch_Seq:
  "(s', cs') \<in> set (rmatch (Seq a b) s cs) \<longleftrightarrow>
   (\<exists>s1 cs1. (s1, cs1) \<in> set (rmatch a s cs) \<and> (s', cs') \<in> set (rmatch b s1 cs1))"
  by auto

lemma pricing_tail_groups: "1 \<notin> grp_ids re_pricing_tail"
  by (simp add: re_pricing_tail_def Opt_def Rep1_def)

lemma pricing_label:
  assumes "re_search re_pricing text = Some (m, cs)"
  shows "match_group cs 1 \<in> set pricing_labels"
proof -
  from re_search_rmatch [OF assms] obtain t s' where
    "(s', cs) \<in> set (rmatch (Seq (Grp 1 (Alts pricing_labels)) re_pricing_tail) t Map.empty)"
    unfolding re_pricing_def by blast
  then obtain s1 cs1 where a: "(s1, cs1) \<in> set (rmatch (Grp 1 (Alts pricing_labels)) t Map.empty)"
    and b: "(s', cs) \<in> set (rmatch re_pricing_tail s1 cs1)"
    unfolding rmatch_Seq by blast
  from rmatch_label_group [OF a] obtain l where "l \<in> set pricing_labels" "cs1 1 = Some l"
    by blast
  moreover from rmatch_caps [OF b pricing_tail_groups] have "cs 1 = cs1 1" .
  ultimately show ?thesis by (simp add: match_group_def)
qed

lemma label_keys:
  "map (\<lambda>l. py_lower (py_replace '' '' ''_'' (py_strip l))) pricing_labels = sale_label_keys"
  by code_simp

lemma pricing_key:
  assumes "re_search re_pricing text = Some (m, cs)"
  shows "py_lower (py_replace '' '' ''_'' (py_strip (match_group cs 1))) \<in> set sale_label_keys"
proof -
  from pricing_label [OF assms]
  have "py_lower (py_replace '' '' ''_'' (py_strip (match_group cs 1)))
          \<in> set (map (\<lambda>l. py_lower (py_replace '' '' ''_'' (py_strip l))) pricing_labels)"
    by simp
  then show ?thesis by (simp only: label_keys)
qed

lemma sale_dict_update:
  "sale_dict d \<Longrightarrow> key \<in> set sale_keys \<union> set sale_label_keys \<Longrightarrow> sale_dict (d(key \<mapsto> v))"
  by (auto simp: sale_dict_def)

lemma sale_row_keys:
  assumes "sale_row d row = Inr d'" and "sale_dict d"
  shows "sale_dict d'"
proof (cases "re_search re_pricing (get_text row)")
  case (Some a)
  obtain m cs where a: "a = (m, cs)" by (cases a)
  from pricing_key [of "get_text row" m cs] Some a
  have "py_lower (py_replace '' '' ''_'' (py_strip (match_group cs 1))) \<in> set sale_label_keys"
    by simp
  with assms Some a show ?thesis
    by (auto simp: sale_row_def Let_def intro!: sale_dict_update)
next
  case None
  with assms show ?thesis
    by (auto simp: sale_row_def Let_def bind_eq_Inr sale_keys_def
          split: option.splits intro!: sale_dict_update)
qed

lemma zest_step_keys:
  assumes "zest_step vs d iz = Inr d'" and "sale_dict d"
  shows "sale_dict d'"
  using assms
  by (cases iz) (auto simp: zest_step_def bind_eq_Inr sale_keys_def split: if_splits
       intro!: sale_dict_update)

lemma foldM_invariant:
  assumes "\<And>s x s'. f s x = Inr s' \<Longrightarrow> P s \<Longrightarrow> P s'"
  shows "foldM f s xs = Inr s' \<Longrightarrow> P s \<Longrightarrow> P s'"
proof (induction xs arbitrary: s)
  case Nil
  then show ?case by simp
next
  case (Cons x xs)
  then show ?case using assms by (auto split: sum.splits)
qed

lemma sale_info_init_keys: "sale_dict sale_info_init"
  by (auto simp: sale_dict_def sale_info_init_def sale_keys_def)

lemma get_sale_info_keys:
  assumes "get_sale_info k soup = Inr si"
  shows "sale_dict si"
proof -
  from assms obtain vw d1 where
    1: "foldM sale_row sale_info_init
          (find_all vw (\<lambda>d. has_class_containing d ''home-summary-row'')) = Inr d1"
    and 2: "foldM (zest_step (find_all soup (\<lambda>d. named ''div'' d \<and> has_class d ''zest-value''))) d1
              (enumerate 0 (find_all soup (\<lambda>d. named ''div'' d \<and> has_class d ''zest-title''))) = Inr si"
    by (auto simp: get_sale_info_def bind_eq_Inr split: option.splits)
  from foldM_invariant [of sale_row sale_dict, OF sale_row_keys 1 sale_info_init_keys]
  have "sale_dict d1" .
  from foldM_invariant [of "zest_step (find_all soup (\<lambda>d. named ''div'' d \<and> has_class d ''zest-value''))"
      sale_dict, OF zest_step_keys 2 this]
  show ?thesis .
qed

lemma sale_key_not_later:
  "key \<in> set sale_keys \<union> set sale_label_keys \<Longrightarrow> key \<notin> set later_keys"
  by (auto simp: sale_keys_def sale_label_keys_def later_keys_def)

text \<open>
  Claim C10. Whenever \<^verbatim>\<open>scrape_url\<close> returns a record, the sale-info extractor returned a
  dictionary on the parsed page; that dictionary has the keys \<^verbatim>\<open>price\<close>, \<^verbatim>\<open>status\<close>,
  \<^verbatim>\<open>zestimate\<close> and \<^verbatim>\<open>rent_zestimate\<close>, and the record holds, under every key of the
  dictionary, the value of the dictionary (\<^verbatim>\<open>None\<close> included), whatever the summary and the
  facts stored under that key.
\<close>

theorem sale_info_overwrites:
  assumes "scrape_url ev url zpid t h w = (Inr r, w')"
  shows "\<exists>u html w1 sale.
           validate_scraper_input (urllib_of ev) (constants_of ev) url zpid = Inr u
           \<and> get_raw_html ev u t w = (Inr html, w1)
           \<and> get_sale_info (constants_of ev) (BeautifulSoup ev html) = Inr sale
           \<and> set sale_keys \<subseteq> dom sale \<and> set sale_keys \<subseteq> dom r
           \<and> (\<forall>key \<in> dom sale. r key = sale key)"
proof -
  from scrape_url_Inr [OF assms] obtain u html w1 r0 where
    v: "validate_scraper_input (urllib_of ev) (constants_of ev) url zpid = Inr u"
    and g: "get_raw_html ev u t w = (Inr html, w1)"
    and e: "extract_record ev (BeautifulSoup ev html) = Inr r0"
    and p: "if h then populate_price_and_tax_histories ev (BeautifulSoup ev html) r0 t w1 = (Inr r, w')
            else r = r0 \<and> w' = w1"
    by blast
  from e obtain summary facts sale d loc where
    s: "get_sale_info (constants_of ev) (BeautifulSoup ev html) = Inr sale"
    and r0: "r0 = (summary ++ facts ++ sale)
                 (''description'' \<mapsto> PStr (get_text d), ''photos'' \<mapsto> get_photos (BeautifulSoup ev html),
                  ''location_data'' \<mapsto> loc)"
    by (auto simp: extract_record_Inr)
  from get_sale_info_keys [OF s] have sd: "sale_dict sale" .
  have k: "r key = sale key" if "key \<in> dom sale" for key
  proof -
    from that sd have "key \<in> set sale_keys \<union> set sale_label_keys"
      by (auto simp: sale_dict_def)
    then have n: "key \<notin> set later_keys" by (rule sale_key_not_later)
    then have "r0 key = (summary ++ facts ++ sale) key"
      by (simp add: r0 later_keys_def)
    also have "\<dots> = sale key"
      using that by (simp add: map_add_dom_app_simps)
    finally have "r0 key = sale key" .
    moreover have "r key = r0 key"
    proof (cases h)
      case True
      with p have "populate_price_and_tax_histories ev (BeautifulSoup ev html) r0 t w1 = (Inr r, w')"
        by simp
      from populate_frame [OF this, of key] n show ?thesis
        by (simp add: later_keys_def)
    next
      case False
      with p show ?thesis by simp
    qed
    ultimately show ?thesis by simp
  qed
  have a: "set sale_keys \<subseteq> dom sale" using sd by (simp add: sale_dict_def)
  have b: "set sale_keys \<subseteq> dom r"
  proof
    fix key assume "key \<in> set sale_keys"
    with a have "key \<in> dom sale" by blast
    with k [OF this] show "key \<in> dom r" by (auto simp: dom_def)
  qed
  from v g s a b k show ?thesis by blast
qed

theorem sale_info_overwrites_witness:
  "map_sum id (\<lambda>facts. facts ''price'')
      (parse_facts sample_constants (datetime_now sample_env) (get_fact_list sample_constants full_listing))
     = Inr (Some (PStr ''5''))
   \<and> (\<exists>r w'. scrape_url sample_env None (Some 1) 10 True world0 = (Inr r, w')
         \<and> r ''price'' = Some PNone \<and> r ''status'' = Some (PStr ''For Sale'')
         \<and> set sale_keys \<subseteq> dom r)"
proof -
  have 0: "map_sum id (\<lambda>facts. facts ''price'')
      (parse_facts sample_constants (datetime_now sample_env) (get_fact_list sample_constants full_listing))
     = Inr (Some (PStr ''5''))"
    by code_simp
  have 1: "validate_scraper_input (urllib_of sample_env) (constants_of sample_env) None (Some 1)
             = Inr (sample_address 1)"
    by code_simp
  have 2: "get_raw_html sample_env (sample_address 1) 10 world0
             = (Inr ''full'', world0\<lparr>requested := [sample_address 1]\<rparr>)"
    by code_simp
  have 3: "map_sum id (\<lambda>d. (d ''price'', d ''status''))
             (get_sale_info (constants_of sample_env) (BeautifulSoup sample_env ''full''))
           = Inr (Some PNone, Some (PStr ''For Sale''))"
    by code_simp
  have "succeeds (fst (scrape_url sample_env None (Some 1) 10 True world0))"
    by code_simp
  then obtain r w' where 4: "scrape_url sample_env None (Some 1) 10 True world0 = (Inr r, w')"
    by (metis succeeds_Inr prod.collapse)
  from sale_info_overwrites [OF 4] 1 2 obtain sale where
    s: "get_sale_info (constants_of sample_env) (BeautifulSoup sample_env ''full'') = Inr sale"
    and d: "set sale_keys \<subseteq> dom r" and k: "\<forall>key \<in> dom sale. r key = sale key"
    by auto
  from 3 s have "sale ''price'' = Some PNone" "sale ''status'' = Some (PStr ''For Sale'')"
    by simp_all
  with k have "r ''price'' = Some PNone" "r ''status'' = Some (PStr ''For Sale'')"
    by (auto simp: dom_def)
  with 0 4 d show ?thesis by blast
qed

end
